theory Spec2Isabelle
  imports Complex_Main "HOL-Library.Word" "HOL-Library.Sublist"
begin

section \<open>JavaScript values as the handler sees them\<close>

text \<open>
  A JavaScript string is a sequence of 16-bit code units. String literals of the source
  are written \<open>js ''...''\<close>; a character that the literal syntax cannot hold is spliced
  in by its code unit.
\<close>

type_synonym jschar = "16 word"
type_synonym jsstring = "jschar list"

definition js :: "string \<Rightarrow> jsstring" where
  "js s = map of_char s"

definition apostrophe :: jschar where
  "apostrophe = 0x27"

text \<open>
  The request body is what \<open>express.json()\<close> parsed, the upstream envelope what
  \<open>apiResponse.json()\<close> parsed: JSON values. \<open>Undefined\<close> is the value of a property
  that is not there. \<open>JObj\<close> holds the own properties of the parsed object, looked up
  with \<open>map_of\<close>.

  A number is held as the text ECMAScript prints it as (\<open>Number::toString\<close>):
  \<open>JNum (js ''15'')\<close>, \<open>JNum (js ''-3'')\<close>, \<open>JNum (js ''2.7'')\<close>, \<open>JNum (js ''1e+21'')\<close>.
  JSON has no \<open>NaN\<close> and no infinity, and a finite number is determined by that text
  but for the sign of zero (both zeros print as \<open>0\<close>). The handler reads a number only
  through its truthiness, its conversion to a string and its serialisation in the
  response, none of which sees the sign of zero; so every number, with or without a
  fraction or an exponent, has its value here, and the conversion to a string is exact.
\<close>

datatype jsval =
    Undefined
  | JNull
  | JBool bool
  | JNum jsstring
  | JStr jsstring
  | JArr "jsval list"
  | JObj "(jsstring \<times> jsval) list"

text \<open>
  What the handler can throw. The three \<open>TypeError\<close>s are raised by the engine
  (calling a property that is no function, reading a property of \<open>null\<close> or
  \<open>undefined\<close>, converting an object that has no usable \<open>toString\<close>);
  \<open>Rejection m\<close> is the error a promise of the fetch library rejects with, \<open>m\<close> its
  message.
\<close>

datatype js_exn =
    TypeError_not_a_function
  | TypeError_nullish_property
  | TypeError_no_primitive
  | Rejection jsstring

subsection \<open>Truthiness\<close>

fun truthy :: "jsval \<Rightarrow> bool" where
  "truthy Undefined = False"
| "truthy JNull = False"
| "truthy (JBool b) = b"
| "truthy (JNum s) = (s \<noteq> js ''0'')"
| "truthy (JStr s) = (s \<noteq> [])"
| "truthy (JArr xs) = True"
| "truthy (JObj kvs) = True"

subsection \<open>\<open>String.prototype.trim\<close>\<close>

text \<open>White space and line terminators of ECMAScript, as code units.\<close>

definition is_ws :: "jschar \<Rightarrow> bool" where
  "is_ws c \<longleftrightarrow>
     c \<in> {0x9, 0xA, 0xB, 0xC, 0xD, 0x20, 0xA0, 0x1680, 0x2028, 0x2029, 0x202F, 0x205F,
          0x3000, 0xFEFF}
     \<or> (0x2000 \<le> c \<and> c \<le> 0x200A)"

definition trim :: "jsstring \<Rightarrow> jsstring" where
  "trim s = rev (dropWhile is_ws (rev (dropWhile is_ws s)))"

text \<open>
  The method call \<open>x.trim()\<close>: only a string has a callable \<open>trim\<close>; a JSON value
  never holds a function.
\<close>

fun call_trim :: "jsval \<Rightarrow> js_exn + jsstring" where
  "call_trim (JStr s) = Inr (trim s)"
| "call_trim Undefined = Inl TypeError_nullish_property"
| "call_trim JNull = Inl TypeError_nullish_property"
| "call_trim (JBool b) = Inl TypeError_not_a_function"
| "call_trim (JNum n) = Inl TypeError_not_a_function"
| "call_trim (JArr xs) = Inl TypeError_not_a_function"
| "call_trim (JObj kvs) = Inl TypeError_not_a_function"

subsection \<open>Conversion to string\<close>

definition digit_char :: "nat \<Rightarrow> jschar" where
  "digit_char d = of_nat (48 + d)"

fun digits :: "nat \<Rightarrow> jsstring" where
  "digits n = (if n < 10 then [digit_char n] else digits (n div 10) @ [digit_char (n mod 10)])"

declare digits.simps [simp del]

definition num_to_string :: "int \<Rightarrow> jsstring" where
  "num_to_string n = (if n < 0 then of_char CHR ''-'' # digits (nat (- n)) else digits (nat n))"

text \<open>
  The number with the integer value \<open>n\<close>, where ECMAScript prints it as its decimal
  numeral: every integer of magnitude up to \<open>2 ^ 53\<close>, so every value of \<open>safeCount\<close>.
\<close>

definition js_number :: "int \<Rightarrow> jsval" where
  "js_number n = JNum (num_to_string n)"

text \<open>
  \<open>ToString\<close> of the template literal and of \<open>parseInt\<close>. An array is joined with
  commas, \<open>null\<close> and \<open>undefined\<close> elements giving the empty string. An object prints
  as \<open>[object Object]\<close> through the inherited \<open>toString\<close>; an own property
  \<open>toString\<close> shadows it with a value that cannot be called, and the conversion throws.
\<close>

fun ToString :: "jsval \<Rightarrow> js_exn + jsstring"
  and join_elems :: "jsval list \<Rightarrow> js_exn + jsstring" where
  "ToString Undefined = Inr (js ''undefined'')"
| "ToString JNull = Inr (js ''null'')"
| "ToString (JBool b) = Inr (if b then js ''true'' else js ''false'')"
| "ToString (JNum s) = Inr s"
| "ToString (JStr s) = Inr s"
| "ToString (JArr xs) = join_elems xs"
| "ToString (JObj kvs) =
     (if js ''toString'' \<in> fst ` set kvs then Inl TypeError_no_primitive
      else Inr (js ''[object Object]''))"
| "join_elems [] = Inr []"
| "join_elems (x # xs) =
     (case (if x = Undefined \<or> x = JNull then Inr [] else ToString x) of
        Inl e \<Rightarrow> Inl e
      | Inr s \<Rightarrow>
          (if xs = [] then Inr s
           else (case join_elems xs of
                   Inl e \<Rightarrow> Inl e
                 | Inr r \<Rightarrow> Inr (s @ of_char CHR '','' # r))))"

subsection \<open>\<open>parseInt(x, 10)\<close>\<close>

definition is_digit :: "jschar \<Rightarrow> bool" where
  "is_digit c \<longleftrightarrow> 0x30 \<le> c \<and> c \<le> 0x39"

definition digit_val :: "jschar \<Rightarrow> nat" where
  "digit_val c = unat c - 48"

definition digits_val :: "jsstring \<Rightarrow> nat" where
  "digits_val z = foldl (\<lambda>acc c. 10 * acc + digit_val c) 0 z"

text \<open>
  \<open>parseInt\<close> on a string: leading white space is skipped, one sign is read, then the
  longest run of decimal digits; \<open>None\<close> is \<open>NaN\<close> (no digit). The result is the exact
  integer of the digit run. ECMAScript rounds it to a double, which changes no value
  below \<open>2 ^ 53\<close> and keeps every larger one above 10, so that \<open>safeCount\<close>, which only
  compares the result with 0, 1 and 10, is the same on both.
\<close>

definition parseInt_string :: "jsstring \<Rightarrow> int option" where
  "parseInt_string input =
     (let s = dropWhile is_ws input;
          negative = (s \<noteq> [] \<and> hd s = of_char CHR ''-'');
          s' = (if s \<noteq> [] \<and> (hd s = of_char CHR ''+'' \<or> hd s = of_char CHR ''-'') then tl s else s);
          z = takeWhile is_digit s'
      in if z = [] then None
         else Some (if negative then - int (digits_val z) else int (digits_val z)))"

definition parseInt :: "jsval \<Rightarrow> js_exn + int option" where
  "parseInt x = (case ToString x of Inl e \<Rightarrow> Inl e | Inr s \<Rightarrow> Inr (parseInt_string s))"

subsection \<open>Property access\<close>

text \<open>
  \<open>own_prop x k\<close> is the value of \<open>x.k\<close> on a receiver that is neither \<open>null\<close> nor
  \<open>undefined\<close>, for the property names the handler reads (\<open>apiKey\<close>, \<open>genre\<close>, ...,
  \<open>choices\<close>, \<open>message\<close>, \<open>content\<close>): none of them is inherited from a prototype, so
  only an object can have one. \<open>index0 x\<close> is \<open>x[0]\<close> on such a receiver.
  \<open>getProp\<close> and \<open>getIndex0\<close> add the \<open>TypeError\<close> of a nullish receiver.
\<close>

definition nullish :: "jsval \<Rightarrow> bool" where
  "nullish x \<longleftrightarrow> x = Undefined \<or> x = JNull"

fun own_prop :: "jsval \<Rightarrow> jsstring \<Rightarrow> jsval" where
  "own_prop (JObj kvs) k = (case map_of kvs k of None \<Rightarrow> Undefined | Some v \<Rightarrow> v)"
| "own_prop x k = Undefined"

fun index0 :: "jsval \<Rightarrow> jsval" where
  "index0 (JArr xs) = (case xs of [] \<Rightarrow> Undefined | x # _ \<Rightarrow> x)"
| "index0 (JStr s) = (case s of [] \<Rightarrow> Undefined | c # _ \<Rightarrow> JStr [c])"
| "index0 (JObj kvs) = (case map_of kvs (js ''0'') of None \<Rightarrow> Undefined | Some v \<Rightarrow> v)"
| "index0 x = Undefined"

definition getProp :: "jsval \<Rightarrow> jsstring \<Rightarrow> js_exn + jsval" where
  "getProp x k = (if nullish x then Inl TypeError_nullish_property else Inr (own_prop x k))"

definition getIndex0 :: "jsval \<Rightarrow> js_exn + jsval" where
  "getIndex0 x = (if nullish x then Inl TypeError_nullish_property else Inr (index0 x))"

text \<open>Optional chaining \<open>x?.f\<close>: \<open>undefined\<close> on a nullish receiver, \<open>f\<close> otherwise.\<close>

definition optional_chain :: "jsval \<Rightarrow> (jsval \<Rightarrow> js_exn + jsval) \<Rightarrow> js_exn + jsval" where
  "optional_chain x f = (if nullish x then Inr Undefined else f x)"

text \<open>Sequencing of computations that may throw.\<close>

definition bind_exn :: "js_exn + 'a \<Rightarrow> ('a \<Rightarrow> js_exn + 'b) \<Rightarrow> js_exn + 'b" where
  "bind_exn m f = (case m of Inl e \<Rightarrow> Inl e | Inr x \<Rightarrow> f x)"

section \<open>Requests, responses and the outbound call\<close>

text \<open>The ten names the handler destructures from \<open>req.body\<close>.\<close>

record level_request =
  apiKey :: jsval
  genre :: jsval
  camera :: jsval
  stagePosition :: jsval
  playtime :: jsval
  difficulty :: jsval
  focus :: jsval
  themeKeywords :: jsval
  count :: jsval
  extraNotes :: jsval

definition destructure :: "jsval \<Rightarrow> js_exn + level_request" where
  "destructure req_body =
     (if nullish req_body then Inl TypeError_nullish_property
      else Inr \<lparr>apiKey = own_prop req_body (js ''apiKey''),
                genre = own_prop req_body (js ''genre''),
                camera = own_prop req_body (js ''camera''),
                stagePosition = own_prop req_body (js ''stagePosition''),
                playtime = own_prop req_body (js ''playtime''),
                difficulty = own_prop req_body (js ''difficulty''),
                focus = own_prop req_body (js ''focus''),
                themeKeywords = own_prop req_body (js ''themeKeywords''),
                count = own_prop req_body (js ''count''),
                extraNotes = own_prop req_body (js ''extraNotes'')\<rparr>)"

text \<open>
  What \<open>res.status(s).json(obj)\<close> sends: the status and the fields of \<open>obj\<close>. A field
  is a JSON value, or the \<open>message\<close> of a caught exception (whose text, for an
  engine-raised \<open>TypeError\<close>, the source does not fix).
\<close>

datatype body_value = Json jsval | MessageOf js_exn

record response =
  status :: nat
  body :: "(jsstring \<times> body_value) list"

text \<open>
  The arguments of the one \<open>fetch\<close>: the URL, the method, the two headers, and the
  object given to \<open>JSON.stringify\<close> with \<open>messages\<close> as (role, content) pairs.
\<close>

record fetch_call =
  url :: jsstring
  http_method :: jsstring
  authorization :: jsstring
  content_type :: jsstring
  model :: jsstring
  messages :: "(jsstring \<times> jsstring) list"
  temperature :: rat
  max_tokens :: nat

text \<open>
  What the awaited \<open>fetch\<close> settles with: a rejection, or a response object of which
  the handler reads \<open>ok\<close> and awaits \<open>text()\<close> or \<open>json()\<close>, each of which may reject.
\<close>

record upstream_response =
  ok :: bool
  text_result :: "js_exn + jsstring"
  json_result :: "js_exn + jsval"

datatype fetch_outcome = Rejects js_exn | Resolves upstream_response


section \<open>The service with layout data\<close>

text \<open>The handler of \<open>POST /api/level-blueprint\<close> in \<^verbatim>\<open>src/server.js\<close>.\<close>

definition server_SYSTEM_PROMPT :: jsstring where
  \<open>server_SYSTEM_PROMPT =
     js ''\<newline>'' @
     js ''You are a senior game level designer and lead designer mentor.\<newline>'' @
     js ''Your job is to generate *production-ready* level blueprints for indie / AA teams.\<newline>'' @
     js ''\<newline>'' @
     js ''GOAL:\<newline>'' @
     js ''For each request, you will generate 1'' @ [0x2013] @ js ''10 level ideas.\<newline>'' @
     js ''Each level idea must be a "Level Blueprint" that an actual team could prototype\<newline>'' @
     js ''within 5'' @ [0x2013] @ js ''14 days, not a vague concept sentence.\<newline>'' @
     js ''\<newline>'' @
     js ''The buyer of this tool expects:\<newline>'' @
     js ''- Professional tone and clear structure\<newline>'' @
     js ''- Practical scope for small teams\<newline>'' @
     js ''- Explicit notes that programmers / artists / QA can use\<newline>'' @
     js ''- A bit of creative flavor, but no meaningless buzzwords\<newline>'' @
     js ''\<newline>'' @
     js ''OUTPUT FORMAT:\<newline>'' @
     js ''Respond in Markdown. For each level, use this structure exactly:\<newline>'' @
     js ''\<newline>'' @
     js ''## Level {N}: {Short Level Title}\<newline>'' @
     js ''\<newline>'' @
     js ''### 1. Level Summary\<newline>'' @
     js ''- Genre:\<newline>'' @
     js ''- Camera:\<newline>'' @
     js ''- Recommended Stage Position: (Tutorial / Early / Mid / Late / Endgame)\<newline>'' @
     js ''- Target Playtime:\<newline>'' @
     js ''- Player Fantasy: (one sentence that captures the emotional fantasy)\<newline>'' @
     js ''- Design Pillars: (2'' @ [0x2013] @ js ''3 short bullet points that define the core experience)\<newline>'' @
     js ''\<newline>'' @
     js ''### 2. Core Objective & Failure\<newline>'' @
     js ''- Primary Objective:\<newline>'' @
     js ''- Secondary/Optional Objectives:\<newline>'' @
     js ''- Fail Conditions:\<newline>'' @
     js ''\<newline>'' @
     js ''### 3. Layout & Flow\<newline>'' @
     js ''- Layout Archetype: (e.g., Linear Corridor / Hub & Spoke / Looping Route / Branching / Arena)\<newline>'' @
     js ''- Zones:\<newline>'' @
     js ''  - Zone A (Intro / Warm-up):\<newline>'' @
     js ''  - Zone B (Main Challenge):\<newline>'' @
     js ''  - Zone C (Climax / Boss / Final Push):\<newline>'' @
     js ''  - Zone D (Cool-down / Reward Area) [optional]\<newline>'' @
     js ''- Flow Steps:\<newline>'' @
     js ''  1. ...\<newline>'' @
     js ''  2. ...\<newline>'' @
     js ''  3. ...\<newline>'' @
     js ''  4. ...\<newline>'' @
     js ''\<newline>'' @
     js ''### 4. Difficulty & Pacing\<newline>'' @
     js ''- Difficulty Curve: (describe Warm-up '' @ [0x2192] @ js '' Spike '' @ [0x2192] @ js '' Recovery '' @ [0x2192] @ js '' Climax)\<newline>'' @
     js ''- Pacing Notes: (combat/exploration/puzzle ratio, tension '' @ [0x2192] @ js '' release rhythm)\<newline>'' @
     js ''- Target Player Profile: (who this level is tuned for: casual / experienced / expert)\<newline>'' @
     js ''\<newline>'' @
     js ''### 5. Mechanics, Enemies & Hazards\<newline>'' @
     js ''- Core Mechanics Focus: (movement, dash, parry, stealth, platforming, etc.)\<newline>'' @
     js ''- Enemy / Hazard Roles:\<newline>'' @
     js ''  - Chaser:\<newline>'' @
     js ''  - Sniper:\<newline>'' @
     js ''  - Bruiser:\<newline>'' @
     js ''  - Support / Controller:\<newline>'' @
     js ''- Environmental Gimmicks:\<newline>'' @
     js ''- Suggested Combos of Mechanics + Gimmicks:\<newline>'' @
     js ''\<newline>'' @
     js ''### 6. Rewards & Optional Content\<newline>'' @
     js ''- Main Rewards:\<newline>'' @
     js ''- Optional / Secret Areas:\<newline>'' @
     js ''- Risk'' @ [0x2013] @ js ''Reward Notes:\<newline>'' @
     js ''\<newline>'' @
     js ''### 7. Narrative & Environment\<newline>'' @
     js ''- Narrative Hook: (what story/feeling this level conveys)\<newline>'' @
     js ''- Environmental Storytelling Ideas: (props, destroyed objects, notes, signs, etc.)\<newline>'' @
     js ''- Optional Dialogue / VO Hooks: (1'' @ [0x2013] @ js ''3 short example lines, if relevant)\<newline>'' @
     js ''\<newline>'' @
     js ''### 8. Scope & Production Notes\<newline>'' @
     js ''- Estimated Asset Requirements:\<newline>'' @
     js ''  - New Enemy Types:\<newline>'' @
     js ''  - New Gimmicks:\<newline>'' @
     js ''  - New Environment Pieces:\<newline>'' @
     js ''- Estimated Solo Dev Time: (rough days for a prototype)\<newline>'' @
     js ''- Scope Risk Notes: (what to cut first if time is short)\<newline>'' @
     js ''- Reuse Opportunities: (what can be reused from previous levels or packs)\<newline>'' @
     js ''\<newline>'' @
     js ''### 9. Playtest Checklist\<newline>'' @
     js ''- Clarity:\<newline>'' @
     js ''- Fairness:\<newline>'' @
     js ''- Pacing:\<newline>'' @
     js ''- Performance / Technical:\<newline>'' @
     js ''\<newline>'' @
     js ''### 10. Design Notes for Dev Team\<newline>'' @
     js ''- Tuning Tips: (how to adjust difficulty / pacing quickly)\<newline>'' @
     js ''- Implementation Risks: (what could break or take unexpectedly long)\<newline>'' @
     js ''- Recommended Prototype Order: (what to build first when time is limited)\<newline>'' @
     js ''\<newline>'' @
     js ''### 11. Level Layout Data (for Visualizer)\<newline>'' @
     js ''After all design notes, add a machine-readable layout block for each level\<newline>'' @
     js ''using the following JSON schema, inside a fenced code block labeled `level-json`.\<newline>'' @
     js ''\<newline>'' @
     js ''Example format (adapt this to each specific level):\<newline>'' @
     js ''\<newline>'' @
     js ''```level-json\<newline>'' @
     js ''{\<newline>'' @
     js ''  "specVersion": "1.0",\<newline>'' @
     js ''  "theme": "toy_factory",\<newline>'' @
     js ''  "flowType": "linear",\<newline>'' @
     js ''  "rooms": [\<newline>'' @
     js ''    {\<newline>'' @
     js ''      "id": "R1",\<newline>'' @
     js ''      "label": "Start Alley",\<newline>'' @
     js ''      "type": "spawn",\<newline>'' @
     js ''      "x": 0,\<newline>'' @
     js ''      "y": 0,\<newline>'' @
     js ''      "w": 4,\<newline>'' @
     js ''      "h": 3\<newline>'' @
     js ''    },\<newline>'' @
     js ''    {\<newline>'' @
     js ''      "id": "R2",\<newline>'' @
     js ''      "label": "Main Corridor Loop",\<newline>'' @
     js ''      "type": "combat",\<newline>'' @
     js ''      "x": 6,\<newline>'' @
     js ''      "y": 0,\<newline>'' @
     js ''      "w": 6,\<newline>'' @
     js ''      "h": 4\<newline>'' @
     js ''    },\<newline>'' @
     js ''    {\<newline>'' @
     js ''      "id": "R3",\<newline>'' @
     js ''      "label": "Courtyard Arena",\<newline>'' @
     js ''      "type": "boss",\<newline>'' @
     js ''      "x": 14,\<newline>'' @
     js ''      "y": 0,\<newline>'' @
     js ''      "w": 7,\<newline>'' @
     js ''      "h": 5\<newline>'' @
     js ''    }\<newline>'' @
     js ''  ],\<newline>'' @
     js ''  "connections": [\<newline>'' @
     js ''    {\<newline>'' @
     js ''      "from": "R1",\<newline>'' @
     js ''      "to": "R2",\<newline>'' @
     js ''      "type": "corridor"\<newline>'' @
     js ''    },\<newline>'' @
     js ''    {\<newline>'' @
     js ''      "from": "R2",\<newline>'' @
     js ''      "to": "R3",\<newline>'' @
     js ''      "type": "arena_gate"\<newline>'' @
     js ''    }\<newline>'' @
     js ''  ]\<newline>'' @
     js ''}\<newline>'' @
     js ''```\<newline>'' @
     js ''\<newline>'' @
     js ''RULES FOR LAYOUT DATA:\<newline>'' @
     js ''- Always include this `Level Layout Data (for Visualizer)` section for every level.\<newline>'' @
     js ''- Use integer grid coordinates for x, y, w, h (small values like 0'' @ [0x2013] @ js ''30).\<newline>'' @
     js ''- Place rooms so they roughly reflect the described flow and do not heavily overlap.\<newline>'' @
     js ''- Use usually 4'' @ [0x2013] @ js ''10 rooms per level (can be fewer if the level is intentionally tiny).\<newline>'' @
     js ''- "theme" should be a short token-like string that reflects the setting,\<newline>'' @
     js ''  for example: "toy_factory", "abandoned_lab", "gothic_dungeon", "industrial_factory".\<newline>'' @
     js ''- "flowType" should match the Layout Archetype when possible:\<newline>'' @
     js ''  - linear, branching, loop, hub, arena, semilinear, etc.\<newline>'' @
     js ''- "type" for rooms should be chosen from:\<newline>'' @
     js ''  - spawn, combat, puzzle, hub, boss, treasure, corridor, safe, checkpoint.\<newline>'' @
     js ''\<newline>'' @
     js ''RULES:\<newline>'' @
     js ''- Always respect the requested genre, camera type, difficulty target and focus.\<newline>'' @
     js ''- Ideas must be implementable in common engines (Unity/Unreal/Godot/RPG Maker).\<newline>'' @
     js ''- Avoid overcomplicated systems that would kill solo dev scope.\<newline>'' @
     js ''- Keep language concise but concrete: no vague buzzwords.\<newline>'' @
     js ''- When "creative direction / extra notes" are provided, align the tone, pacing and motifs with them.\<newline>''\<close>

text \<open>\<open>Math.min(Math.max(parseInt(count, 10) || 1, 1), 10)\<close>\<close>

definition server_safeCount :: "jsval \<Rightarrow> js_exn + int" where
  "server_safeCount cnt =
     bind_exn (parseInt cnt) (\<lambda>parsed.
       Inr (min (max (case parsed of None \<Rightarrow> 1 | Some n \<Rightarrow> if n = 0 then 1 else n) 1) 10))"

text \<open>
  The template literal of \<open>userPrompt\<close>, as a function of its nine substitutions
  already converted to strings.
\<close>

definition server_template ::
  "jsstring \<Rightarrow> jsstring \<Rightarrow> jsstring \<Rightarrow> jsstring \<Rightarrow> jsstring \<Rightarrow> jsstring \<Rightarrow> jsstring \<Rightarrow> jsstring \<Rightarrow>
   jsstring \<Rightarrow> jsstring" where
  \<open>server_template c g cam sp pt d f th notes =
     js ''\<newline>'' @
     js ''Generate '' @
     c @
     js '' level blueprints.\<newline>'' @
     js ''\<newline>'' @
     js ''Game context:\<newline>'' @
     js ''- Genre: '' @
     g @
     js ''\<newline>'' @
     js ''- Camera: '' @
     cam @
     js ''\<newline>'' @
     js ''- Target stage position: '' @
     sp @
     js ''\<newline>'' @
     js ''- Target playtime: '' @
     pt @
     js ''\<newline>'' @
     js ''- Target difficulty: '' @
     d @
     js ''\<newline>'' @
     js ''- Primary focus: '' @
     f @
     js ''\<newline>'' @
     js ''- Theme / setting keywords: '' @
     th @
     js ''\<newline>'' @
     js ''\<newline>'' @
     js ''Creative direction / extra notes from the designer:\<newline>'' @
     notes @
     js ''\<newline>'' @
     js ''\<newline>'' @
     js ''Constraints:\<newline>'' @
     js ''- The blueprints should be suitable for an indie or small team.\<newline>'' @
     js ''- Each level should feel distinct from the others.\<newline>'' @
     js ''- Use the output structure defined in the system prompt.\<newline>'' @
     js ''- Keep the tone professional (for internal design docs), but still readable.\<newline>'' @
     js ''- For every level, you MUST also include the '' @ [apostrophe] @ js ''Level Layout Data (for Visualizer)'' @ [apostrophe] @ js ''\<newline>'' @
     js ''  section at the end, with a valid `level-json` block that approximates a\<newline>'' @
     js ''  top-down layout of the described level.\<newline>''\<close>

text \<open>
  \<open>userPrompt\<close>: the substitutions are evaluated and converted in the order of the
  template, then the whole text is trimmed.
\<close>

definition server_userPrompt :: "level_request \<Rightarrow> int \<Rightarrow> js_exn + jsstring" where
  "server_userPrompt r safeCount =
     bind_exn (ToString (js_number safeCount)) (\<lambda>c.
     bind_exn (ToString (genre r)) (\<lambda>g.
     bind_exn (ToString (camera r)) (\<lambda>cam.
     bind_exn (ToString (stagePosition r)) (\<lambda>sp.
     bind_exn (ToString (playtime r)) (\<lambda>pt.
     bind_exn (ToString (difficulty r)) (\<lambda>d.
     bind_exn (ToString (focus r)) (\<lambda>f.
     bind_exn (ToString (if truthy (themeKeywords r) then themeKeywords r
                         else JStr (js ''none''))) (\<lambda>th.
     bind_exn (if truthy (extraNotes r)
               then bind_exn (call_trim (extraNotes r)) (\<lambda>t. Inr (length t > 0))
               else Inr False) (\<lambda>has_notes.
     bind_exn (if has_notes then call_trim (extraNotes r)
               else Inr (js ''No additional notes.'')) (\<lambda>notes.
       Inr (trim (server_template c g cam sp pt d f th notes))))))))))))"

text \<open>
  The \<open>try\<close> block up to the \<open>fetch\<close>: it throws, returns a response early, or has
  the arguments of the call.
\<close>

definition server_before_fetch :: "jsval \<Rightarrow> js_exn + (response + fetch_call)" where
  "server_before_fetch req_body =
     bind_exn (destructure req_body) (\<lambda>r.
     bind_exn (if \<not> truthy (apiKey r) then Inr True
               else bind_exn (call_trim (apiKey r)) (\<lambda>t. Inr (\<not> truthy (JStr t)))) (\<lambda>no_key.
       if no_key then
         Inr (Inl \<lparr>status = 400,
                    body = [(js ''error'', Json (JStr (js ''No API key provided''))),
                            (js ''message'', Json (JStr
                               (js ''Please send your OpenAI API key in the '' @ [apostrophe] @
                                js ''apiKey'' @ [apostrophe] @ js '' field.'')))]\<rparr>)
       else if \<not> truthy (genre r) \<or> \<not> truthy (camera r) \<or> \<not> truthy (stagePosition r)
               \<or> \<not> truthy (playtime r) \<or> \<not> truthy (difficulty r) \<or> \<not> truthy (focus r)
               \<or> \<not> truthy (count r) then
         Inr (Inl \<lparr>status = 400,
                    body = [(js ''error'', Json (JStr (js ''Missing required fields'')))]\<rparr>)
       else
         bind_exn (server_safeCount (count r)) (\<lambda>safeCount.
         bind_exn (server_userPrompt r safeCount) (\<lambda>userPrompt.
         bind_exn (call_trim (apiKey r)) (\<lambda>key.
           Inr (Inr \<lparr>url = js ''https://api.openai.com/v1/chat/completions'',
                      http_method = js ''POST'',
                      authorization = js ''Bearer '' @ key,
                      content_type = js ''application/json'',
                      model = js ''gpt-4o-mini'',
                      messages = [(js ''system'', server_SYSTEM_PROMPT),
                                  (js ''user'', userPrompt)],
                      temperature = 7 / 10,
                      max_tokens = 2800\<rparr>))))))"

text \<open>The rest of the \<open>try\<close> block, on what the \<open>fetch\<close> settled with.\<close>

definition server_after_fetch :: "fetch_outcome \<Rightarrow> js_exn + response" where
  "server_after_fetch outcome =
     (case outcome of
        Rejects e \<Rightarrow> Inl e
      | Resolves apiResponse \<Rightarrow>
          if \<not> ok apiResponse then
            bind_exn (text_result apiResponse) (\<lambda>errorText.
              Inr \<lparr>status = 500,
                   body = [(js ''error'', Json (JStr (js ''OpenAI API error''))),
                           (js ''detail'', Json (JStr errorText))]\<rparr>)
          else
            bind_exn (json_result apiResponse) (\<lambda>data.
            bind_exn (bind_exn (getProp data (js ''choices'')) (\<lambda>choices.
                      optional_chain choices (\<lambda>choices.
                      bind_exn (getIndex0 choices) (\<lambda>first.
                      optional_chain first (\<lambda>first.
                      bind_exn (getProp first (js ''message'')) (\<lambda>message.
                      optional_chain message (\<lambda>message.
                      getProp message (js ''content''))))))))
              (\<lambda>found.
                 Inr \<lparr>status = 200,
                      body = [(js ''content'',
                               Json (if truthy found then found else JStr []))]\<rparr>)))"

text \<open>
  The handler: the \<open>try\<close> block with its \<open>catch\<close>. The result is the response sent and
  the list of \<open>fetch\<close> calls made, given what a \<open>fetch\<close> would settle with.
\<close>

definition server_handler :: "jsval \<Rightarrow> fetch_outcome \<Rightarrow> response \<times> fetch_call list" where
  "server_handler req_body outcome =
     (case server_before_fetch req_body of
        Inl err \<Rightarrow>
          (\<lparr>status = 500,
            body = [(js ''error'', Json (JStr (js ''Server error''))),
                    (js ''detail'', MessageOf err)]\<rparr>, [])
      | Inr (Inl early) \<Rightarrow> (early, [])
      | Inr (Inr call) \<Rightarrow>
          (case server_after_fetch outcome of
             Inl err \<Rightarrow>
               (\<lparr>status = 500,
                 body = [(js ''error'', Json (JStr (js ''Server error''))),
                         (js ''detail'', MessageOf err)]\<rparr>, [call])
           | Inr res \<Rightarrow> (res, [call])))"

section \<open>The service without layout data\<close>

text \<open>The handler of \<open>POST /api/level-blueprint\<close> in \<^verbatim>\<open>src/unnamed/part_000\<close>.\<close>

definition part_000_SYSTEM_PROMPT :: jsstring where
  \<open>part_000_SYSTEM_PROMPT =
     js ''\<newline>'' @
     js ''You are a senior game level designer and lead designer mentor.\<newline>'' @
     js ''Your job is to generate *production-ready* level blueprints for indie / AA teams.\<newline>'' @
     js ''\<newline>'' @
     js ''GOAL:\<newline>'' @
     js ''For each request, you will generate 1'' @ [0x2013] @ js ''10 level ideas.\<newline>'' @
     js ''Each level idea must be a "Level Blueprint" that an actual team could prototype\<newline>'' @
     js ''within 5'' @ [0x2013] @ js ''14 days, not a vague concept sentence.\<newline>'' @
     js ''\<newline>'' @
     js ''The buyer of this tool expects:\<newline>'' @
     js ''- Professional tone and clear structure\<newline>'' @
     js ''- Practical scope for small teams\<newline>'' @
     js ''- Explicit notes that programmers / artists / QA can use\<newline>'' @
     js ''- A bit of creative flavor, but no meaningless buzzwords\<newline>'' @
     js ''\<newline>'' @
     js ''OUTPUT FORMAT:\<newline>'' @
     js ''Respond in Markdown. For each level, use this structure exactly:\<newline>'' @
     js ''\<newline>'' @
     js ''## Level {N}: {Short Level Title}\<newline>'' @
     js ''\<newline>'' @
     js ''### 1. Level Summary\<newline>'' @
     js ''- Genre:\<newline>'' @
     js ''- Camera:\<newline>'' @
     js ''- Recommended Stage Position: (Tutorial / Early / Mid / Late / Endgame)\<newline>'' @
     js ''- Target Playtime:\<newline>'' @
     js ''- Player Fantasy: (one sentence that captures the emotional fantasy)\<newline>'' @
     js ''- Design Pillars: (2'' @ [0x2013] @ js ''3 short bullet points that define the core experience)\<newline>'' @
     js ''\<newline>'' @
     js ''### 2. Core Objective & Failure\<newline>'' @
     js ''- Primary Objective:\<newline>'' @
     js ''- Secondary/Optional Objectives:\<newline>'' @
     js ''- Fail Conditions:\<newline>'' @
     js ''\<newline>'' @
     js ''### 3. Layout & Flow\<newline>'' @
     js ''- Layout Archetype: (e.g., Linear Corridor / Hub & Spoke / Looping Route / Branching / Arena)\<newline>'' @
     js ''- Zones:\<newline>'' @
     js ''  - Zone A (Intro / Warm-up):\<newline>'' @
     js ''  - Zone B (Main Challenge):\<newline>'' @
     js ''  - Zone C (Climax / Boss / Final Push):\<newline>'' @
     js ''  - Zone D (Cool-down / Reward Area) [optional]\<newline>'' @
     js ''- Flow Steps:\<newline>'' @
     js ''  1. ...\<newline>'' @
     js ''  2. ...\<newline>'' @
     js ''  3. ...\<newline>'' @
     js ''  4. ...\<newline>'' @
     js ''\<newline>'' @
     js ''### 4. Difficulty & Pacing\<newline>'' @
     js ''- Difficulty Curve: (describe Warm-up '' @ [0x2192] @ js '' Spike '' @ [0x2192] @ js '' Recovery '' @ [0x2192] @ js '' Climax)\<newline>'' @
     js ''- Pacing Notes: (combat/exploration/puzzle ratio, tension '' @ [0x2192] @ js '' release rhythm)\<newline>'' @
     js ''- Target Player Profile: (who this level is tuned for: casual / experienced / expert)\<newline>'' @
     js ''\<newline>'' @
     js ''### 5. Mechanics, Enemies & Hazards\<newline>'' @
     js ''- Core Mechanics Focus: (movement, dash, parry, stealth, platforming, etc.)\<newline>'' @
     js ''- Enemy / Hazard Roles:\<newline>'' @
     js ''  - Chaser:\<newline>'' @
     js ''  - Sniper:\<newline>'' @
     js ''  - Bruiser:\<newline>'' @
     js ''  - Support / Controller:\<newline>'' @
     js ''- Environmental Gimmicks:\<newline>'' @
     js ''- Suggested Combos of Mechanics + Gimmicks:\<newline>'' @
     js ''\<newline>'' @
     js ''### 6. Rewards & Optional Content\<newline>'' @
     js ''- Main Rewards:\<newline>'' @
     js ''- Optional / Secret Areas:\<newline>'' @
     js ''- Risk'' @ [0x2013] @ js ''Reward Notes:\<newline>'' @
     js ''\<newline>'' @
     js ''### 7. Narrative & Environment\<newline>'' @
     js ''- Narrative Hook: (what story/feeling this level conveys)\<newline>'' @
     js ''- Environmental Storytelling Ideas: (props, destroyed objects, notes, signs, etc.)\<newline>'' @
     js ''- Optional Dialogue / VO Hooks: (1'' @ [0x2013] @ js ''3 short example lines, if relevant)\<newline>'' @
     js ''\<newline>'' @
     js ''### 8. Scope & Production Notes\<newline>'' @
     js ''- Estimated Asset Requirements:\<newline>'' @
     js ''  - New Enemy Types:\<newline>'' @
     js ''  - New Gimmicks:\<newline>'' @
     js ''  - New Environment Pieces:\<newline>'' @
     js ''- Estimated Solo Dev Time: (rough days for a prototype)\<newline>'' @
     js ''- Scope Risk Notes: (what to cut first if time is short)\<newline>'' @
     js ''- Reuse Opportunities: (what can be reused from previous levels or packs)\<newline>'' @
     js ''\<newline>'' @
     js ''### 9. Playtest Checklist\<newline>'' @
     js ''- Clarity:\<newline>'' @
     js ''- Fairness:\<newline>'' @
     js ''- Pacing:\<newline>'' @
     js ''- Performance / Technical:\<newline>'' @
     js ''\<newline>'' @
     js ''### 10. Design Notes for Dev Team\<newline>'' @
     js ''- Tuning Tips: (how to adjust difficulty / pacing quickly)\<newline>'' @
     js ''- Implementation Risks: (what could break or take unexpectedly long)\<newline>'' @
     js ''- Recommended Prototype Order: (what to build first when time is limited)\<newline>'' @
     js ''\<newline>'' @
     js ''RULES:\<newline>'' @
     js ''- Always respect the requested genre, camera type, difficulty target and focus.\<newline>'' @
     js ''- Ideas must be implementable in common engines (Unity/Unreal/Godot/RPG Maker).\<newline>'' @
     js ''- Avoid overcomplicated systems that would kill solo dev scope.\<newline>'' @
     js ''- Keep language concise but concrete: no vague buzzwords.\<newline>'' @
     js ''- When "creative direction / extra notes" are provided, align the tone, pacing and motifs with them.\<newline>''\<close>

text \<open>\<open>Math.min(Math.max(parseInt(count, 10) || 1, 1), 10)\<close>\<close>

definition part_000_safeCount :: "jsval \<Rightarrow> js_exn + int" where
  "part_000_safeCount cnt =
     bind_exn (parseInt cnt) (\<lambda>parsed.
       Inr (min (max (case parsed of None \<Rightarrow> 1 | Some n \<Rightarrow> if n = 0 then 1 else n) 1) 10))"

text \<open>
  The template literal of \<open>userPrompt\<close>, as a function of its nine substitutions
  already converted to strings.
\<close>

definition part_000_template ::
  "jsstring \<Rightarrow> jsstring \<Rightarrow> jsstring \<Rightarrow> jsstring \<Rightarrow> jsstring \<Rightarrow> jsstring \<Rightarrow> jsstring \<Rightarrow> jsstring \<Rightarrow>
   jsstring \<Rightarrow> jsstring" where
  \<open>part_000_template c g cam sp pt d f th notes =
     js ''\<newline>'' @
     js ''Generate '' @
     c @
     js '' level blueprints.\<newline>'' @
     js ''\<newline>'' @
     js ''Game context:\<newline>'' @
     js ''- Genre: '' @
     g @
     js ''\<newline>'' @
     js ''- Camera: '' @
     cam @
     js ''\<newline>'' @
     js ''- Target stage position: '' @
     sp @
     js ''\<newline>'' @
     js ''- Target playtime: '' @
     pt @
     js ''\<newline>'' @
     js ''- Target difficulty: '' @
     d @
     js ''\<newline>'' @
     js ''- Primary focus: '' @
     f @
     js ''\<newline>'' @
     js ''- Theme / setting keywords: '' @
     th @
     js ''\<newline>'' @
     js ''\<newline>'' @
     js ''Creative direction / extra notes from the designer:\<newline>'' @
     notes @
     js ''\<newline>'' @
     js ''\<newline>'' @
     js ''Constraints:\<newline>'' @
     js ''- The blueprints should be suitable for an indie or small team.\<newline>'' @
     js ''- Each level should feel distinct from the others.\<newline>'' @
     js ''- Use the output structure defined in the system prompt.\<newline>'' @
     js ''- Keep the tone professional (for internal design docs), but still readable.\<newline>''\<close>

text \<open>
  \<open>userPrompt\<close>: the substitutions are evaluated and converted in the order of the
  template, then the whole text is trimmed.
\<close>

definition part_000_userPrompt :: "level_request \<Rightarrow> int \<Rightarrow> js_exn + jsstring" where
  "part_000_userPrompt r safeCount =
     bind_exn (ToString (js_number safeCount)) (\<lambda>c.
     bind_exn (ToString (genre r)) (\<lambda>g.
     bind_exn (ToString (camera r)) (\<lambda>cam.
     bind_exn (ToString (stagePosition r)) (\<lambda>sp.
     bind_exn (ToString (playtime r)) (\<lambda>pt.
     bind_exn (ToString (difficulty r)) (\<lambda>d.
     bind_exn (ToString (focus r)) (\<lambda>f.
     bind_exn (ToString (if truthy (themeKeywords r) then themeKeywords r
                         else JStr (js ''none''))) (\<lambda>th.
     bind_exn (if truthy (extraNotes r)
               then bind_exn (call_trim (extraNotes r)) (\<lambda>t. Inr (length t > 0))
               else Inr False) (\<lambda>has_notes.
     bind_exn (if has_notes then call_trim (extraNotes r)
               else Inr (js ''No additional notes.'')) (\<lambda>notes.
       Inr (trim (part_000_template c g cam sp pt d f th notes))))))))))))"

text \<open>
  The \<open>try\<close> block up to the \<open>fetch\<close>: it throws, returns a response early, or has
  the arguments of the call.
\<close>

definition part_000_before_fetch :: "jsval \<Rightarrow> js_exn + (response + fetch_call)" where
  "part_000_before_fetch req_body =
     bind_exn (destructure req_body) (\<lambda>r.
     bind_exn (if \<not> truthy (apiKey r) then Inr True
               else bind_exn (call_trim (apiKey r)) (\<lambda>t. Inr (\<not> truthy (JStr t)))) (\<lambda>no_key.
       if no_key then
         Inr (Inl \<lparr>status = 400,
                    body = [(js ''error'', Json (JStr (js ''No API key provided''))),
                            (js ''message'', Json (JStr
                               (js ''Please send your OpenAI API key in the '' @ [apostrophe] @
                                js ''apiKey'' @ [apostrophe] @ js '' field.'')))]\<rparr>)
       else if \<not> truthy (genre r) \<or> \<not> truthy (camera r) \<or> \<not> truthy (stagePosition r)
               \<or> \<not> truthy (playtime r) \<or> \<not> truthy (difficulty r) \<or> \<not> truthy (focus r)
               \<or> \<not> truthy (count r) then
         Inr (Inl \<lparr>status = 400,
                    body = [(js ''error'', Json (JStr (js ''Missing required fields'')))]\<rparr>)
       else
         bind_exn (part_000_safeCount (count r)) (\<lambda>safeCount.
         bind_exn (part_000_userPrompt r safeCount) (\<lambda>userPrompt.
         bind_exn (call_trim (apiKey r)) (\<lambda>key.
           Inr (Inr \<lparr>url = js ''https://api.openai.com/v1/chat/completions'',
                      http_method = js ''POST'',
                      authorization = js ''Bearer '' @ key,
                      content_type = js ''application/json'',
                      model = js ''gpt-4o-mini'',
                      messages = [(js ''system'', part_000_SYSTEM_PROMPT),
                                  (js ''user'', userPrompt)],
                      temperature = 7 / 10,
                      max_tokens = 2800\<rparr>))))))"

text \<open>The rest of the \<open>try\<close> block, on what the \<open>fetch\<close> settled with.\<close>

definition part_000_after_fetch :: "fetch_outcome \<Rightarrow> js_exn + response" where
  "part_000_after_fetch outcome =
     (case outcome of
        Rejects e \<Rightarrow> Inl e
      | Resolves apiResponse \<Rightarrow>
          if \<not> ok apiResponse then
            bind_exn (text_result apiResponse) (\<lambda>errorText.
              Inr \<lparr>status = 500,
                   body = [(js ''error'', Json (JStr (js ''OpenAI API error''))),
                           (js ''detail'', Json (JStr errorText))]\<rparr>)
          else
            bind_exn (json_result apiResponse) (\<lambda>data.
            bind_exn (bind_exn (getProp data (js ''choices'')) (\<lambda>choices.
                      optional_chain choices (\<lambda>choices.
                      bind_exn (getIndex0 choices) (\<lambda>first.
                      optional_chain first (\<lambda>first.
                      bind_exn (getProp first (js ''message'')) (\<lambda>message.
                      optional_chain message (\<lambda>message.
                      getProp message (js ''content''))))))))
              (\<lambda>found.
                 Inr \<lparr>status = 200,
                      body = [(js ''content'',
                               Json (if truthy found then found else JStr []))]\<rparr>)))"

text \<open>
  The handler: the \<open>try\<close> block with its \<open>catch\<close>. The result is the response sent and
  the list of \<open>fetch\<close> calls made, given what a \<open>fetch\<close> would settle with.
\<close>

definition part_000_handler :: "jsval \<Rightarrow> fetch_outcome \<Rightarrow> response \<times> fetch_call list" where
  "part_000_handler req_body outcome =
     (case part_000_before_fetch req_body of
        Inl err \<Rightarrow>
          (\<lparr>status = 500,
            body = [(js ''error'', Json (JStr (js ''Server error''))),
                    (js ''detail'', MessageOf err)]\<rparr>, [])
      | Inr (Inl early) \<Rightarrow> (early, [])
      | Inr (Inr call) \<Rightarrow>
          (case part_000_after_fetch outcome of
             Inl err \<Rightarrow>
               (\<lparr>status = 500,
                 body = [(js ''error'', Json (JStr (js ''Server error''))),
                         (js ''detail'', MessageOf err)]\<rparr>, [call])
           | Inr res \<Rightarrow> (res, [call])))"



section \<open>Notions used to state the properties\<close>

text \<open>The value of a named field of the request body.\<close>

definition body_field :: "jsval \<Rightarrow> string \<Rightarrow> jsval" where
  "body_field b name = own_prop b (js name)"


definition credential_present :: "jsval \<Rightarrow> bool" where
  "credential_present b \<longleftrightarrow>
     (case body_field b ''apiKey'' of JStr s \<Rightarrow> trim s \<noteq> [] | _ \<Rightarrow> False)"

text \<open>The seven fields of the required-field check.\<close>

definition required_fields :: "string list" where
  "required_fields =
     [''genre'', ''camera'', ''stagePosition'', ''playtime'', ''difficulty'', ''focus'', ''count'']"

definition some_required_field_missing :: "jsval \<Rightarrow> bool" where
  "some_required_field_missing b \<longleftrightarrow> list_ex (\<lambda>name. \<not> truthy (body_field b name)) required_fields"

text \<open>
  A fully valid request, after the \<open>LevelRequest\<close> of the specification: the credential is
  a string that is not blank, the six descriptive fields are non-empty strings,
  \<open>count\<close> is a number other than zero or a non-empty string, and each of the two
  optional fields is absent or a string.
\<close>

definition is_text :: "jsval \<Rightarrow> bool" where
  "is_text v \<longleftrightarrow> (case v of JStr s \<Rightarrow> s \<noteq> [] | _ \<Rightarrow> False)"

definition text_of :: "jsval \<Rightarrow> jsstring" where
  "text_of v = (case v of JStr s \<Rightarrow> s | _ \<Rightarrow> [])"

definition optional_text :: "jsval \<Rightarrow> bool" where
  "optional_text v \<longleftrightarrow> (case v of Undefined \<Rightarrow> True | JStr s \<Rightarrow> True | _ \<Rightarrow> False)"

definition fully_valid :: "jsval \<Rightarrow> bool" where
  "fully_valid b \<longleftrightarrow>
     credential_present b
     \<and> is_text (body_field b ''genre'') \<and> is_text (body_field b ''camera'')
     \<and> is_text (body_field b ''stagePosition'') \<and> is_text (body_field b ''playtime'')
     \<and> is_text (body_field b ''difficulty'') \<and> is_text (body_field b ''focus'')
     \<and> (case body_field b ''count'' of JNum s \<Rightarrow> s \<noteq> js ''0'' | JStr s \<Rightarrow> s \<noteq> []
          | _ \<Rightarrow> False)
     \<and> optional_text (body_field b ''themeKeywords'')
     \<and> optional_text (body_field b ''extraNotes'')"

text \<open>
  What the prompt shows for the two optional fields of a fully valid request: the
  sentinel \<open>none\<close> for absent (or empty) theme keywords, the sentinel
  \<open>No additional notes.\<close> for absent or blank notes, the trimmed notes otherwise.
  A text is blank when it has white space only.
\<close>

definition theme_text :: "jsval \<Rightarrow> jsstring" where
  "theme_text v = (case v of JStr s \<Rightarrow> if s = [] then js ''none'' else s | _ \<Rightarrow> js ''none'')"

definition blank :: "jsstring \<Rightarrow> bool" where
  "blank s \<longleftrightarrow> list_all is_ws s"

definition notes_text :: "jsval \<Rightarrow> jsstring" where
  "notes_text v =
     (case v of JStr s \<Rightarrow> if blank s then js ''No additional notes.'' else trim s
      | _ \<Rightarrow> js ''No additional notes.'')"

text \<open>The decimal numerals of the counts 1 to 10, as a table.\<close>

definition count_numeral :: "int \<Rightarrow> jsstring" where
  "count_numeral k =
     (if k = 1 then js ''1'' else if k = 2 then js ''2'' else if k = 3 then js ''3''
      else if k = 4 then js ''4'' else if k = 5 then js ''5'' else if k = 6 then js ''6''
      else if k = 7 then js ''7'' else if k = 8 then js ''8'' else if k = 9 then js ''9''
      else if k = 10 then js ''10'' else [])"

text \<open>The user message of an outbound call: the content of its second message.\<close>

definition user_message :: "fetch_call \<Rightarrow> jsstring" where
  "user_message c = (case messages c of [sys, usr] \<Rightarrow> snd usr | _ \<Rightarrow> [])"

text \<open>
  The value at \<open>choices[0].message.content\<close> of an envelope, \<open>Undefined\<close> where the path
  breaks off.
\<close>

definition content_path :: "jsval \<Rightarrow> jsval" where
  "content_path data =
     own_prop (own_prop (index0 (own_prop data (js ''choices''))) (js ''message'')) (js ''content'')"

text \<open>The three responses that do not depend on the upstream.\<close>

definition no_api_key_response :: response where
  "no_api_key_response =
     \<lparr>status = 400,
      body = [(js ''error'', Json (JStr (js ''No API key provided''))),
              (js ''message'', Json (JStr
                 (js ''Please send your OpenAI API key in the '' @ [apostrophe] @
                  js ''apiKey'' @ [apostrophe] @ js '' field.'')))]\<rparr>"

definition missing_fields_response :: response where
  "missing_fields_response =
     \<lparr>status = 400, body = [(js ''error'', Json (JStr (js ''Missing required fields'')))]\<rparr>"

definition server_error_response :: "js_exn \<Rightarrow> response" where
  "server_error_response err =
     \<lparr>status = 500,
      body = [(js ''error'', Json (JStr (js ''Server error''))), (js ''detail'', MessageOf err)]\<rparr>"

text \<open>
  The text both services send as user prompt, cut into its labelled lines: the
  substitutions are the count \<open>c\<close>, the six descriptive fields, the theme keywords
  \<open>th\<close> and the notes.
\<close>

definition prompt_parts ::
  "jsstring \<Rightarrow> jsstring \<Rightarrow> jsstring \<Rightarrow> jsstring \<Rightarrow> jsstring \<Rightarrow> jsstring \<Rightarrow> jsstring \<Rightarrow> jsstring \<Rightarrow>
   jsstring \<Rightarrow> jsstring list" where
  \<open>prompt_parts c g cam sp pt d f th notes =
     [js ''Generate '' @ c @ js '' level blueprints.'',
      js ''\<newline>\<newline>Game context:\<newline>'',
      js ''- Genre: '' @ g,
      js ''\<newline>'',
      js ''- Camera: '' @ cam,
      js ''\<newline>'',
      js ''- Target stage position: '' @ sp,
      js ''\<newline>'',
      js ''- Target playtime: '' @ pt,
      js ''\<newline>'',
      js ''- Target difficulty: '' @ d,
      js ''\<newline>'',
      js ''- Primary focus: '' @ f,
      js ''\<newline>'',
      js ''- Theme / setting keywords: '' @ th,
      js ''\<newline>\<newline>'',
      js ''Creative direction / extra notes from the designer:\<newline>'' @ notes,
      js ''\<newline>\<newline>Constraints:\<newline>'' @
      js ''- The blueprints should be suitable for an indie or small team.\<newline>'' @
      js ''- Each level should feel distinct from the others.\<newline>'' @
      js ''- Use the output structure defined in the system prompt.\<newline>'' @
      js ''- Keep the tone professional (for internal design docs), but still readable.'']\<close>

text \<open>
  The constraint that only the service with layout data appends to the user prompt,
  and the call of that service that corresponds to a call of the other one.
\<close>

definition layout_constraint :: jsstring where
  \<open>layout_constraint =
     js ''- For every level, you MUST also include the '' @ [apostrophe] @ js ''Level Layout Data (for Visualizer)'' @ [apostrophe] @ js ''\<newline>'' @
     js ''  section at the end, with a valid `level-json` block that approximates a\<newline>'' @
     js ''  top-down layout of the described level.''\<close>

definition to_layout_call :: "fetch_call \<Rightarrow> fetch_call" where
  "to_layout_call c =
     c\<lparr>messages := [(js ''system'', server_SYSTEM_PROMPT),
                     (js ''user'', user_message c @ js ''\<newline>'' @ layout_constraint)]\<rparr>"



definition is_string :: "jsval \<Rightarrow> bool" where
  "is_string v \<longleftrightarrow> (case v of JStr s \<Rightarrow> True | _ \<Rightarrow> False)"

text \<open>
  A prompt \<open>p\<close> shows the request \<open>b\<close> with normalized count \<open>k\<close>: it has the opening
  line with the count, one labelled line for each of the six descriptive fields with
  the literal value, the sentinel \<open>No additional notes.\<close> under the notes heading when
  the notes are absent or blank, and the sentinel \<open>none\<close> on the keyword line when the
  theme keywords are absent.
\<close>

definition shows_request :: "jsval \<Rightarrow> int \<Rightarrow> jsstring \<Rightarrow> bool" where
  \<open>shows_request b k p \<longleftrightarrow>
     sublist (js ''Generate '' @ count_numeral k @ js '' level blueprints.'') p
     \<and> sublist (js ''- Genre: '' @ text_of (body_field b ''genre'')) p
     \<and> sublist (js ''- Camera: '' @ text_of (body_field b ''camera'')) p
     \<and> sublist (js ''- Target stage position: '' @ text_of (body_field b ''stagePosition'')) p
     \<and> sublist (js ''- Target playtime: '' @ text_of (body_field b ''playtime'')) p
     \<and> sublist (js ''- Target difficulty: '' @ text_of (body_field b ''difficulty'')) p
     \<and> sublist (js ''- Primary focus: '' @ text_of (body_field b ''focus'')) p
     \<and> (\<not> truthy (body_field b ''extraNotes'') \<or> blank (text_of (body_field b ''extraNotes''))
          \<longrightarrow> sublist (js ''Creative direction / extra notes from the designer:\<newline>'' @
                       js ''No additional notes.'') p)
     \<and> (body_field b ''themeKeywords'' = Undefined
          \<longrightarrow> sublist (js ''- Theme / setting keywords: '' @ js ''none'') p)\<close>

text \<open>Two requests and two upstream answers used as examples.\<close>

definition sample_request :: jsval where
  "sample_request =
     JObj [(js ''apiKey'', JStr (js '' sk-test '')),
           (js ''genre'', JStr (js ''Roguelike'')),
           (js ''camera'', JStr (js ''Top-down'')),
           (js ''stagePosition'', JStr (js ''Mid'')),
           (js ''playtime'', JStr (js ''10 minutes'')),
           (js ''difficulty'', JStr (js ''Hard'')),
           (js ''focus'', JStr (js ''Combat'')),
           (js ''count'', JNum (js ''15''))]"

definition blank_notes_request :: jsval where
  "blank_notes_request =
     JObj [(js ''apiKey'', JStr (js ''sk-test'')),
           (js ''genre'', JStr (js ''Puzzle'')),
           (js ''camera'', JStr (js ''Side view'')),
           (js ''stagePosition'', JStr (js ''Early'')),
           (js ''playtime'', JStr (js ''5 minutes'')),
           (js ''difficulty'', JStr (js ''Easy'')),
           (js ''focus'', JStr (js ''Exploration'')),
           (js ''themeKeywords'', JStr (js ''neon'')),
           (js ''count'', JNum (js ''1e+21'')),
           (js ''extraNotes'', JStr (js '' \<newline>  ''))]"

definition rate_limited :: fetch_outcome where
  "rate_limited =
     Resolves \<lparr>ok = False, text_result = Inr (js ''rate limited''),
               json_result = Inl (Rejection (js ''invalid json''))\<rparr>"

definition envelope :: "jsval \<Rightarrow> fetch_outcome" where
  "envelope data = Resolves \<lparr>ok = True, text_result = Inr [], json_result = Inr data\<rparr>"

definition envelope_with_content :: "jsval \<Rightarrow> jsval" where
  "envelope_with_content v =
     JObj [(js ''choices'', JArr [JObj [(js ''message'', JObj [(js ''content'', v)])]])]"

section \<open>Facts about the JavaScript primitives\<close>

text \<open>
  Literals are compared character by character; \<open>trim\<close> removes exactly the white
  space around a text that neither starts nor ends with white space; \<open>parseInt\<close> reads
  back the decimal numeral of an integer, and finds no number in a string without a
  digit.
\<close>

lemma of_char_word_inj: "(of_char a :: jschar) = of_char b \<longleftrightarrow> a = b"
proof -
  have "(of_char a :: jschar) = of_char b \<longleftrightarrow> (word_of_nat (of_char a) :: jschar) = word_of_nat (of_char b)"
    by (simp only: of_nat_of_char)
  also have "\<dots> \<longleftrightarrow> take_bit 16 (of_char a :: nat) = take_bit 16 (of_char b :: nat)"
    by (simp add: word_of_nat_eq_iff)
  also have "\<dots> \<longleftrightarrow> (of_char a :: nat) = of_char b"
  proof -
    have "take_bit 16 (of_char c :: nat) = of_char c" for c :: char
    proof -
      have "(of_char c :: nat) < 2 ^ 16" by (rule less_trans [OF nat_of_char_less_256]) simp
      then show ?thesis by (rule take_bit_nat_eq_self)
    qed
    then show ?thesis by simp
  qed
  finally show ?thesis by simp
qed

lemma js_eq_iff [simp]: "js a = js b \<longleftrightarrow> a = b"
  unfolding js_def by (simp add: inj_on_def of_char_word_inj)

lemma js_eq_Nil [simp]: "js s = [] \<longleftrightarrow> s = []"
  by (simp add: js_def)

lemma trim_Nil [simp]: "trim [] = []"
  by (simp add: trim_def)

lemma trim_between:
  assumes "s \<noteq> []" "\<not> is_ws (hd s)" "\<not> is_ws (last s)" "\<forall>c \<in> set pre. is_ws c" "\<forall>c \<in> set post. is_ws c"
  shows "trim (pre @ s @ post) = s"
proof -
  have 1: "dropWhile is_ws (pre @ s @ post) = s @ post"
    using assms by (cases s) (simp_all add: dropWhile_append)
  have 2: "dropWhile is_ws (rev (s @ post)) = rev s"
    using assms by (cases s rule: rev_cases) (simp_all add: dropWhile_append)
  show ?thesis by (simp only: trim_def 1 2 rev_rev_ident)
qed

lemma newline_ws: "\<forall>c \<in> set (js ''\<newline>''). is_ws c"
  by (simp add: js_def is_ws_def)

lemma digit_char_props:
  assumes "d < 10"
  shows "is_digit (digit_char d)" and "digit_val (digit_char d) = d"
proof -
  from assms have "d \<in> {0, 1, 2, 3, 4, 5, 6, 7, 8, 9}" by auto
  then show "is_digit (digit_char d)" and "digit_val (digit_char d) = d"
    by (auto simp: digit_char_def is_digit_def digit_val_def)
qed

lemma is_digit_not_ws: "is_digit c \<Longrightarrow> \<not> is_ws c"
  unfolding is_digit_def is_ws_def by (auto simp: word_le_nat_alt)

lemma is_digit_not_sign: "is_digit c \<Longrightarrow> c \<noteq> of_char CHR ''-'' \<and> c \<noteq> of_char CHR ''+''"
  unfolding is_digit_def by (auto simp: word_le_nat_alt)

lemma digits_nonempty: "digits n \<noteq> []"
  by (subst digits.simps) simp

lemma digits_all_digit: "c \<in> set (digits n) \<Longrightarrow> is_digit c"
proof (induction n arbitrary: c rule: digits.induct)
  case (1 n)
  show ?case
  proof (cases "n < 10")
    case True
    with "1.prems" show ?thesis
      by (subst (asm) digits.simps) (simp add: digit_char_props)
  next
    case False
    with "1.prems" "1.IH" show ?thesis
      by (subst (asm) digits.simps) (auto simp: digit_char_props)
  qed
qed

lemma digits_val_digits: "digits_val (digits n) = n"
proof (induction n rule: digits.induct)
  case (1 n)
  show ?case
  proof (cases "n < 10")
    case True
    then show ?thesis
      by (subst digits.simps) (simp add: digits_val_def digit_char_props)
  next
    case False
    with "1.IH" have "digits_val (digits (n div 10)) = n div 10" by simp
    with False show ?thesis
      by (subst digits.simps) (simp add: digits_val_def digit_char_props)
  qed
qed

lemma parseInt_string_digits: "parseInt_string (digits n) = Some (int n)"
proof -
  obtain c cs where cs: "digits n = c # cs"
    using digits_nonempty [of n] by (cases "digits n") auto
  have c: "is_digit c" using digits_all_digit [of c n] cs by simp
  have tw: "takeWhile is_digit (digits n) = digits n"
    using digits_all_digit [of _ n] by simp
  have dw: "dropWhile is_ws (digits n) = digits n"
    using is_digit_not_ws [OF c] by (simp add: cs)
  have hd: "hd (digits n) \<noteq> of_char CHR ''-''" "hd (digits n) \<noteq> of_char CHR ''+''"
    using is_digit_not_sign [OF c] by (simp_all add: cs)
  show ?thesis
    using hd by (simp add: parseInt_string_def Let_def dw tw digits_nonempty digits_val_digits)
qed

lemma parseInt_string_num: "parseInt_string (num_to_string n) = Some n"
proof (cases "n < 0")
  case False
  then show ?thesis by (simp add: num_to_string_def parseInt_string_digits)
next
  case True
  obtain c cs where cs: "digits (nat (- n)) = c # cs"
    using digits_nonempty [of "nat (- n)"] by (cases "digits (nat (- n))") auto
  have all: "takeWhile is_digit (c # cs) = c # cs"
    using digits_all_digit [of _ "nat (- n)"] cs by simp
  have m: "\<not> is_ws (of_char CHR ''-'')" by (simp add: is_ws_def)
  show ?thesis
    unfolding parseInt_string_def num_to_string_def
    using True all m digits_val_digits [of "nat (- n)"]
    by (simp add: cs Let_def)
qed

lemma parseInt_string_no_digit:
  assumes "\<forall>c \<in> set s. \<not> is_digit c"
  shows "parseInt_string s = None"
proof -
  have sub: "set (dropWhile is_ws s) \<subseteq> set s" by (rule set_dropWhileD [THEN subsetI]) 
  define t where "t = dropWhile is_ws s"
  have t: "\<forall>c \<in> set t. \<not> is_digit c" using assms sub unfolding t_def by blast
  have "takeWhile is_digit t = []" using t by (cases t) auto
  moreover have "takeWhile is_digit (tl t) = []" using t by (cases t; cases "tl t") auto
  ultimately show ?thesis
    unfolding parseInt_string_def t_def [symmetric] by (simp add: Let_def)
qed

lemma count_numeral_eq: "1 \<le> k \<Longrightarrow> k \<le> 10 \<Longrightarrow> num_to_string k = count_numeral k"
proof -
  assume "1 \<le> k" "k \<le> 10"
  then have "k = 1 \<or> k = 2 \<or> k = 3 \<or> k = 4 \<or> k = 5 \<or> k = 6 \<or> k = 7 \<or> k = 8 \<or> k = 9 \<or> k = 10"
    by arith
  then show ?thesis
    by (elim disjE)
       (simp_all add: num_to_string_def count_numeral_def digits.simps digit_char_def js_def)
qed

lemma js_append: "js a @ js b = js (a @ b)"
  by (simp add: js_def)

lemma blank_Nil [simp]: "blank []"
  by (simp add: blank_def)

lemma trim_blank: "trim s = [] \<longleftrightarrow> blank s"
proof
  assume "trim s = []"
  then have all: "\<forall>x \<in> set (dropWhile is_ws s). is_ws x"
    by (simp add: trim_def)
  have "dropWhile is_ws s = []"
  proof (cases "dropWhile is_ws s")
    case Nil
    then show ?thesis .
  next
    case (Cons y ys)
    then have "\<not> is_ws y" using hd_dropWhile [of is_ws s] by simp
    moreover have "is_ws y" using all Cons by simp
    ultimately show ?thesis by simp
  qed
  then show "blank s" by (simp add: blank_def list_all_iff)
next
  assume "blank s"
  then have dw: "dropWhile is_ws s = []" by (simp add: blank_def list_all_iff)
  show "trim s = []" unfolding trim_def dw by simp
qed

lemma sublist_concat: "x \<in> set xs \<Longrightarrow> sublist x (concat xs)"
proof (induction xs)
  case Nil
  then show ?case by simp
next
  case (Cons a xs)
  then show ?case
    by (auto simp: sublist_append)
qed

lemma prefix_concat_hd: "prefix x (concat (x # xs))"
  by simp

lemma object_not_nullish: "\<not> nullish (JObj kvs)"
  by (simp add: nullish_def)

lemma content_path_envelope: "content_path (envelope_with_content v) = v"
  by (simp add: content_path_def envelope_with_content_def)

lemma envelope_not_nullish: "\<not> nullish (envelope_with_content v)"
  by (simp add: nullish_def envelope_with_content_def)

lemma content_path_empty_object: "content_path (JObj []) = Undefined"
  by (simp add: content_path_def)

section \<open>The text of the user prompt\<close>

text \<open>
  The template of either service starts and ends with a line break, and what lies
  between starts with \<open>G\<close> and ends with a full stop: trimming removes the two line
  breaks and nothing else. The trimmed text is \<open>concat (prompt_parts \<dots>)\<close>, followed
  in the service with layout data by a line break and the layout constraint.
\<close>

lemma part_000_template_shape:
  "part_000_template c g cam sp pt d f th nts =
     js ''\<newline>'' @ concat (prompt_parts c g cam sp pt d f th nts) @ js ''\<newline>''"
  by (simp only: part_000_template_def prompt_parts_def js_def list.map append_Cons append_Nil
        append_assoc concat.simps append_Nil2)

lemma server_template_shape:
  "server_template c g cam sp pt d f th nts =
     js ''\<newline>'' @ (concat (prompt_parts c g cam sp pt d f th nts) @ js ''\<newline>'' @ layout_constraint) @ js ''\<newline>''"
  by (simp only: server_template_def prompt_parts_def layout_constraint_def js_def list.map
        append_Cons append_Nil append_assoc concat.simps append_Nil2)

lemma prompt_parts_nonempty:
  "concat (prompt_parts c g cam sp pt d f th nts) \<noteq> []"
  by (simp only: prompt_parts_def js_def list.map concat.simps append_Cons append_Nil list.distinct
        not_False_eq_True)

lemma prompt_parts_hd:
  "hd (concat (prompt_parts c g cam sp pt d f th nts)) = of_char CHR ''G''"
  by (simp only: prompt_parts_def js_def list.map concat.simps append_Cons append_Nil list.sel)

lemma prompt_parts_last:
  "last (concat (prompt_parts c g cam sp pt d f th nts)) = of_char CHR ''.''"
  by (simp only: prompt_parts_def js_def list.map concat.simps append_Cons append_Nil append_Nil2
        last.simps last_append list.distinct if_False if_True simp_thms
        append_assoc append_is_Nil_conv)

lemma prompt_parts_ends:
  "concat (prompt_parts c g cam sp pt d f th nts) \<noteq> []"
  "\<not> is_ws (hd (concat (prompt_parts c g cam sp pt d f th nts)))"
  "\<not> is_ws (last (concat (prompt_parts c g cam sp pt d f th nts)))"
  by (simp_all only: prompt_parts_nonempty prompt_parts_hd prompt_parts_last not_False_eq_True)
     (simp_all add: is_ws_def)

lemma layout_constraint_nonempty: "layout_constraint \<noteq> []"
  by (simp only: layout_constraint_def js_def list.map append_Cons append_Nil list.distinct
        not_False_eq_True)

lemma layout_constraint_last: "last layout_constraint = of_char CHR ''.''"
  by (simp only: layout_constraint_def js_def list.map append_Cons append_Nil append_Nil2
        last.simps last_append list.distinct if_False if_True simp_thms
        append_assoc append_is_Nil_conv)

lemma part_000_trim_template:
  "trim (part_000_template c g cam sp pt d f th nts) = concat (prompt_parts c g cam sp pt d f th nts)"
  unfolding part_000_template_shape
  by (rule trim_between [OF prompt_parts_ends newline_ws newline_ws])

lemma server_trim_template:
  "trim (server_template c g cam sp pt d f th nts) =
     concat (prompt_parts c g cam sp pt d f th nts) @ js ''\<newline>'' @ layout_constraint"
proof -
  let ?p = "concat (prompt_parts c g cam sp pt d f th nts)"
  let ?s = "?p @ js ''\<newline>'' @ layout_constraint"
  have a: "?s \<noteq> []"
    using prompt_parts_nonempty [of c g cam sp pt d f th nts] by (simp only: append_is_Nil_conv) simp
  have "hd ?s = hd ?p"
    using prompt_parts_nonempty [of c g cam sp pt d f th nts] by (rule hd_append2)
  then have b: "\<not> is_ws (hd ?s)"
    using prompt_parts_ends(2) [of c g cam sp pt d f th nts] by (simp only: simp_thms)
  have "last ?s = last layout_constraint"
    using layout_constraint_nonempty by (simp only: last_append append_is_Nil_conv) simp
  then have c: "\<not> is_ws (last ?s)"
    by (simp only: layout_constraint_last) (simp add: is_ws_def)
  show ?thesis
    unfolding server_template_shape
    by (rule trim_between [OF a b c newline_ws newline_ws])
qed

lemma prompt_parts_opening:
  "prefix (js ''Generate '' @ c @ js '' level blueprints.'')
     (concat (prompt_parts c g cam sp pt d f th nts))"
  unfolding prompt_parts_def by (rule prefix_concat_hd)

lemma prompt_parts_members:
  "js ''Generate '' @ c @ js '' level blueprints.'' \<in> set (prompt_parts c g cam sp pt d f th nts)"
  "js ''- Genre: '' @ g \<in> set (prompt_parts c g cam sp pt d f th nts)"
  "js ''- Camera: '' @ cam \<in> set (prompt_parts c g cam sp pt d f th nts)"
  "js ''- Target stage position: '' @ sp \<in> set (prompt_parts c g cam sp pt d f th nts)"
  "js ''- Target playtime: '' @ pt \<in> set (prompt_parts c g cam sp pt d f th nts)"
  "js ''- Target difficulty: '' @ d \<in> set (prompt_parts c g cam sp pt d f th nts)"
  "js ''- Primary focus: '' @ f \<in> set (prompt_parts c g cam sp pt d f th nts)"
  "js ''- Theme / setting keywords: '' @ th \<in> set (prompt_parts c g cam sp pt d f th nts)"
  "js ''Creative direction / extra notes from the designer:\<newline>'' @ nts
     \<in> set (prompt_parts c g cam sp pt d f th nts)"
  unfolding prompt_parts_def
  by (simp_all only: list.set insert_iff simp_thms)

lemma sublist_prompt_part:
  "x \<in> set (prompt_parts c g cam sp pt d f th nts) \<Longrightarrow>
     sublist x (concat (prompt_parts c g cam sp pt d f th nts))
     \<and> sublist x (concat (prompt_parts c g cam sp pt d f th nts) @ js ''\<newline>'' @ layout_constraint)"
  using sublist_concat [of x "prompt_parts c g cam sp pt d f th nts"]
  by (simp add: sublist_append)

lemma notes_text_sentinel:
  "optional_text v \<Longrightarrow> \<not> truthy v \<or> blank (text_of v) \<Longrightarrow>
     notes_text v = js ''No additional notes.''"
  by (cases v) (auto simp: optional_text_def notes_text_def text_of_def blank_def)

lemma theme_text_absent: "theme_text Undefined = js ''none''"
  by (simp add: theme_text_def)

lemma shows_request_generic:
  assumes parts: "\<And>x. x \<in> set (prompt_parts (count_numeral k)
              (text_of (body_field b ''genre'')) (text_of (body_field b ''camera''))
              (text_of (body_field b ''stagePosition'')) (text_of (body_field b ''playtime''))
              (text_of (body_field b ''difficulty'')) (text_of (body_field b ''focus''))
              (theme_text (body_field b ''themeKeywords''))
              (notes_text (body_field b ''extraNotes''))) \<Longrightarrow> sublist x p"
    and opt: "optional_text (body_field b ''extraNotes'')"
  shows "shows_request b k p"
  unfolding shows_request_def
proof (intro conjI impI)
  show "sublist (js ''Generate '' @ count_numeral k @ js '' level blueprints.'') p"
    by (rule parts) (rule prompt_parts_members)
  show "sublist (js ''- Genre: '' @ text_of (body_field b ''genre'')) p"
    by (rule parts) (rule prompt_parts_members)
  show "sublist (js ''- Camera: '' @ text_of (body_field b ''camera'')) p"
    by (rule parts) (rule prompt_parts_members)
  show "sublist (js ''- Target stage position: '' @ text_of (body_field b ''stagePosition'')) p"
    by (rule parts) (rule prompt_parts_members)
  show "sublist (js ''- Target playtime: '' @ text_of (body_field b ''playtime'')) p"
    by (rule parts) (rule prompt_parts_members)
  show "sublist (js ''- Target difficulty: '' @ text_of (body_field b ''difficulty'')) p"
    by (rule parts) (rule prompt_parts_members)
  show "sublist (js ''- Primary focus: '' @ text_of (body_field b ''focus'')) p"
    by (rule parts) (rule prompt_parts_members)
next
  assume "\<not> truthy (body_field b ''extraNotes'') \<or> blank (text_of (body_field b ''extraNotes''))"
  then have eq: "notes_text (body_field b ''extraNotes'') = js ''No additional notes.''"
    by (rule notes_text_sentinel [OF opt])
  have "sublist (js ''Creative direction / extra notes from the designer:\<newline>'' @
      notes_text (body_field b ''extraNotes'')) p"
    by (rule parts) (rule prompt_parts_members)
  then show "sublist (js ''Creative direction / extra notes from the designer:\<newline>'' @
      js ''No additional notes.'') p"
    by (simp only: eq)
next
  assume "body_field b ''themeKeywords'' = Undefined"
  then have eq: "theme_text (body_field b ''themeKeywords'') = js ''none''"
    by (simp only: theme_text_absent)
  have "sublist (js ''- Theme / setting keywords: '' @ theme_text (body_field b ''themeKeywords'')) p"
    by (rule parts) (rule prompt_parts_members)
  then show "sublist (js ''- Theme / setting keywords: '' @ js ''none'') p"
    by (simp only: eq)
qed

section \<open>The handlers step by step\<close>

text \<open>
  What each part of a handler returns on each kind of input, for both services, and how
  the parts of one service relate to those of the other.
\<close>

lemma safeCount_str:
  "server_safeCount (JStr s) =
     Inr (min (max (case parseInt_string s of None \<Rightarrow> 1 | Some n \<Rightarrow> if n = 0 then 1 else n) 1) 10)"
  by (simp add: server_safeCount_def parseInt_def bind_exn_def)

lemma safeCount_num: "server_safeCount (JNum s) = server_safeCount (JStr s)"
  by (simp add: server_safeCount_def parseInt_def bind_exn_def)

lemma safeCount_js_number:
  "\<bar>n\<bar> < 2 ^ 53 \<Longrightarrow> server_safeCount (js_number n) = Inr (min (max n 1) 10)"
  by (auto simp: js_number_def safeCount_num safeCount_str parseInt_string_num)

lemma parseInt_string_minus:
  "parseInt_string (of_char CHR ''-'' # s) =
     (if takeWhile is_digit s = [] then None else Some (- int (digits_val (takeWhile is_digit s))))"
proof -
  have "\<not> is_ws (of_char CHR ''-'')" by (simp add: is_ws_def)
  then show ?thesis by (simp add: parseInt_string_def Let_def)
qed

lemma safeCount_negative: "server_safeCount (JNum (of_char CHR ''-'' # s)) = Inr 1"
  using parseInt_string_minus [of s] by (auto simp: safeCount_num safeCount_str)

lemma parseInt_string_no_integer:
  assumes "list_all is_ws w" and "\<not> is_ws c" and "\<not> is_digit c"
    and "c \<noteq> of_char CHR ''+''" and "c \<noteq> of_char CHR ''-''"
  shows "parseInt_string (w @ c # r) = None"
proof -
  have "dropWhile is_ws (w @ c # r) = c # r"
    using assms(1,2) by (simp add: dropWhile_append list_all_iff)
  then show ?thesis
    using assms(3,4,5) by (simp add: parseInt_string_def Let_def)
qed

lemma parseInt_string_literals:
  "parseInt_string (js ''0'') = Some 0"
  "parseInt_string (js ''5'') = Some 5"
  "parseInt_string (js ''7'') = Some 7"
  "parseInt_string (js ''15'') = Some 15"
  "parseInt_string (js ''2.7'') = Some 2"
  "parseInt_string (js ''0.5'') = Some 0"
  "parseInt_string (js ''1e+21'') = Some 1"
  by (simp_all add: parseInt_string_def js_def is_ws_def is_digit_def digits_val_def
        digit_val_def)

lemma safeCount_same: "part_000_safeCount v = server_safeCount v"
  by (simp add: server_safeCount_def part_000_safeCount_def)

lemma safeCount_range:
  "server_safeCount v = Inr k \<Longrightarrow> 1 \<le> k \<and> k \<le> 10"
  by (auto simp: server_safeCount_def bind_exn_def split: sum.splits)

lemma safeCount_undefined: "server_safeCount Undefined = Inr 1"
  by (simp add: server_safeCount_def parseInt_def bind_exn_def parseInt_string_no_digit js_def
        is_digit_def)

lemma safeCount_bool: "server_safeCount (JBool t) = Inr 1"
  by (simp add: server_safeCount_def parseInt_def bind_exn_def parseInt_string_no_digit js_def
        is_digit_def)

lemma safeCount_seven: "server_safeCount (JStr (js ''7'')) = Inr 7"
  by (simp add: safeCount_str parseInt_string_literals)

lemma part_000_userPrompt_text:
  assumes "genre r = JStr g" "camera r = JStr cam" "stagePosition r = JStr sp"
    "playtime r = JStr pt" "difficulty r = JStr d" "focus r = JStr f"
    "optional_text (themeKeywords r)" "optional_text (extraNotes r)"
    "1 \<le> k" "k \<le> 10"
  shows "part_000_userPrompt r k =
     Inr (concat (prompt_parts (count_numeral k) g cam sp pt d f
            (theme_text (themeKeywords r)) (notes_text (extraNotes r))))"
  using assms
  by (cases "themeKeywords r"; cases "extraNotes r")
     (simp_all add: part_000_userPrompt_def bind_exn_def part_000_trim_template theme_text_def
        notes_text_def optional_text_def js_number_def count_numeral_eq trim_blank)

lemma server_userPrompt_text:
  assumes "genre r = JStr g" "camera r = JStr cam" "stagePosition r = JStr sp"
    "playtime r = JStr pt" "difficulty r = JStr d" "focus r = JStr f"
    "optional_text (themeKeywords r)" "optional_text (extraNotes r)"
    "1 \<le> k" "k \<le> 10"
  shows "server_userPrompt r k =
     Inr (concat (prompt_parts (count_numeral k) g cam sp pt d f
            (theme_text (themeKeywords r)) (notes_text (extraNotes r)))
          @ js ''\<newline>'' @ layout_constraint)"
  using assms
  by (cases "themeKeywords r"; cases "extraNotes r")
     (simp_all add: server_userPrompt_def bind_exn_def server_trim_template theme_text_def
        notes_text_def optional_text_def js_number_def count_numeral_eq trim_blank)

lemma userPrompt_rel:
  "server_userPrompt r k =
     map_sum id (\<lambda>p. p @ js ''\<newline>'' @ layout_constraint) (part_000_userPrompt r k)"
  by (simp add: server_userPrompt_def part_000_userPrompt_def bind_exn_def
        server_trim_template part_000_trim_template split: sum.splits)

lemma part_000_userPrompt_opening:
  "part_000_userPrompt r k = Inr p \<Longrightarrow> 1 \<le> k \<Longrightarrow> k \<le> 10 \<Longrightarrow>
     prefix (js ''Generate '' @ count_numeral k @ js '' level blueprints.'') p"
  by (auto simp: part_000_userPrompt_def bind_exn_def part_000_trim_template prompt_parts_opening
        js_number_def count_numeral_eq split: sum.splits)

lemma server_userPrompt_opening:
  "server_userPrompt r k = Inr p \<Longrightarrow> 1 \<le> k \<Longrightarrow> k \<le> 10 \<Longrightarrow>
     prefix (js ''Generate '' @ count_numeral k @ js '' level blueprints.'') p"
  using part_000_userPrompt_opening [of r k]
  by (cases "part_000_userPrompt r k") (auto simp: userPrompt_rel)

lemma destructure_fields:
  "\<not> nullish b \<Longrightarrow> destructure b =
     Inr \<lparr>apiKey = body_field b ''apiKey'', genre = body_field b ''genre'',
          camera = body_field b ''camera'', stagePosition = body_field b ''stagePosition'',
          playtime = body_field b ''playtime'', difficulty = body_field b ''difficulty'',
          focus = body_field b ''focus'', themeKeywords = body_field b ''themeKeywords'',
          count = body_field b ''count'', extraNotes = body_field b ''extraNotes''\<rparr>"
  by (simp add: destructure_def body_field_def)


lemma destructure_count: "destructure b = Inr r \<Longrightarrow> count r = body_field b ''count''"
  by (auto simp: destructure_def body_field_def split: if_splits)

lemma fully_valid_not_nullish: "fully_valid b \<Longrightarrow> \<not> nullish b"
  by (cases b) (simp_all add: fully_valid_def credential_present_def body_field_def nullish_def)



lemma server_before_fetch_key_not_string:
  assumes "\<not> nullish b" "truthy (body_field b ''apiKey'')" "\<forall>s. body_field b ''apiKey'' \<noteq> JStr s"
  shows "server_before_fetch b = Inl TypeError_not_a_function"
  using assms(2,3)
  by (cases "body_field b ''apiKey''")
     (simp_all add: server_before_fetch_def destructure_fields [OF assms(1)] bind_exn_def)

lemma server_before_fetch_missing_field:
  assumes "\<not> nullish b" "credential_present b" "some_required_field_missing b"
  shows "server_before_fetch b = Inr (Inl missing_fields_response)"
proof -
  from assms(2) obtain key where key: "body_field b ''apiKey'' = JStr key" "trim key \<noteq> []"
    by (auto simp: credential_present_def split: jsval.splits)
  then have "key \<noteq> []" by auto
  with key assms(3) show ?thesis
    by (auto simp: server_before_fetch_def destructure_fields [OF assms(1)] bind_exn_def
          some_required_field_missing_def required_fields_def missing_fields_response_def)
qed



lemma part_000_before_fetch_key_not_string:
  assumes "\<not> nullish b" "truthy (body_field b ''apiKey'')" "\<forall>s. body_field b ''apiKey'' \<noteq> JStr s"
  shows "part_000_before_fetch b = Inl TypeError_not_a_function"
  using assms(2,3)
  by (cases "body_field b ''apiKey''")
     (simp_all add: part_000_before_fetch_def destructure_fields [OF assms(1)] bind_exn_def)

lemma part_000_before_fetch_missing_field:
  assumes "\<not> nullish b" "credential_present b" "some_required_field_missing b"
  shows "part_000_before_fetch b = Inr (Inl missing_fields_response)"
proof -
  from assms(2) obtain key where key: "body_field b ''apiKey'' = JStr key" "trim key \<noteq> []"
    by (auto simp: credential_present_def split: jsval.splits)
  then have "key \<noteq> []" by auto
  with key assms(3) show ?thesis
    by (auto simp: part_000_before_fetch_def destructure_fields [OF assms(1)] bind_exn_def
          some_required_field_missing_def required_fields_def missing_fields_response_def)
qed

lemma before_fetch_rel:
  "server_before_fetch b = map_sum id (map_sum id to_layout_call) (part_000_before_fetch b)"
proof (cases "destructure b")
  case (Inl e)
  then show ?thesis
    by (simp add: server_before_fetch_def part_000_before_fetch_def bind_exn_def)
next
  case (Inr r)
  show ?thesis
  proof (cases "part_000_userPrompt r (projr (server_safeCount (count r)))")
    case (Inl e)
    with Inr show ?thesis
      by (auto simp: server_before_fetch_def part_000_before_fetch_def bind_exn_def
            safeCount_same userPrompt_rel split: sum.splits)
  next
    case p: (Inr p)
    with Inr show ?thesis
      by (auto simp: server_before_fetch_def part_000_before_fetch_def bind_exn_def
            safeCount_same userPrompt_rel to_layout_call_def user_message_def split: sum.splits)
  qed
qed

lemma valid_count_total:
  assumes "fully_valid b"
  shows "\<exists>k. server_safeCount (body_field b ''count'') = Inr k"
  using assms
  by (cases "body_field b ''count''") (simp_all add: fully_valid_def safeCount_num safeCount_str)

lemma part_000_valid_call:
  assumes "fully_valid b" "part_000_safeCount (body_field b ''count'') = Inr k"
  shows "part_000_before_fetch b =
     Inr (Inr \<lparr>url = js ''https://api.openai.com/v1/chat/completions'',
                http_method = js ''POST'',
                authorization = js ''Bearer '' @ trim (text_of (body_field b ''apiKey'')),
                content_type = js ''application/json'',
                model = js ''gpt-4o-mini'',
                messages = [(js ''system'', part_000_SYSTEM_PROMPT),
                            (js ''user'', concat (prompt_parts (count_numeral k)
                               (text_of (body_field b ''genre'')) (text_of (body_field b ''camera''))
                               (text_of (body_field b ''stagePosition''))
                               (text_of (body_field b ''playtime''))
                               (text_of (body_field b ''difficulty''))
                               (text_of (body_field b ''focus''))
                               (theme_text (body_field b ''themeKeywords''))
                               (notes_text (body_field b ''extraNotes''))))],
                temperature = 7 / 10,
                max_tokens = 2800\<rparr>)"
proof -
  have nn: "\<not> nullish b" using assms(1) by (rule fully_valid_not_nullish)
  from assms(1) obtain key g cam sp pt d f where
    fields: "body_field b ''apiKey'' = JStr key" "trim key \<noteq> []"
      "body_field b ''genre'' = JStr g" "g \<noteq> []"
      "body_field b ''camera'' = JStr cam" "cam \<noteq> []"
      "body_field b ''stagePosition'' = JStr sp" "sp \<noteq> []"
      "body_field b ''playtime'' = JStr pt" "pt \<noteq> []"
      "body_field b ''difficulty'' = JStr d" "d \<noteq> []"
      "body_field b ''focus'' = JStr f" "f \<noteq> []"
    and cnt: "truthy (body_field b ''count'')"
    and opt: "optional_text (body_field b ''themeKeywords'')"
      "optional_text (body_field b ''extraNotes'')"
    by (auto simp: fully_valid_def credential_present_def is_text_def split: jsval.splits)
  have key: "key \<noteq> []" using fields(2) by auto
  let ?r = "\<lparr>apiKey = body_field b ''apiKey'', genre = body_field b ''genre'',
          camera = body_field b ''camera'', stagePosition = body_field b ''stagePosition'',
          playtime = body_field b ''playtime'', difficulty = body_field b ''difficulty'',
          focus = body_field b ''focus'', themeKeywords = body_field b ''themeKeywords'',
          count = body_field b ''count'', extraNotes = body_field b ''extraNotes''\<rparr>"
  have rng: "1 \<le> k" "k \<le> 10"
    using safeCount_range [of "body_field b ''count''" k] assms(2) by (simp_all add: safeCount_same)
  have p: "part_000_userPrompt ?r k =
     Inr (concat (prompt_parts (count_numeral k) g cam sp pt d f
            (theme_text (body_field b ''themeKeywords'')) (notes_text (body_field b ''extraNotes''))))"
    using part_000_userPrompt_text [of ?r g cam sp pt d f k] fields opt rng by simp
  show ?thesis
    using fields key cnt assms(2) p
    by (simp add: part_000_before_fetch_def destructure_fields [OF nn] bind_exn_def text_of_def)
qed

lemma server_valid_call:
  assumes "fully_valid b" "server_safeCount (body_field b ''count'') = Inr k"
  shows "server_before_fetch b =
     Inr (Inr \<lparr>url = js ''https://api.openai.com/v1/chat/completions'',
                http_method = js ''POST'',
                authorization = js ''Bearer '' @ trim (text_of (body_field b ''apiKey'')),
                content_type = js ''application/json'',
                model = js ''gpt-4o-mini'',
                messages = [(js ''system'', server_SYSTEM_PROMPT),
                            (js ''user'', concat (prompt_parts (count_numeral k)
                               (text_of (body_field b ''genre'')) (text_of (body_field b ''camera''))
                               (text_of (body_field b ''stagePosition''))
                               (text_of (body_field b ''playtime''))
                               (text_of (body_field b ''difficulty''))
                               (text_of (body_field b ''focus''))
                               (theme_text (body_field b ''themeKeywords''))
                               (notes_text (body_field b ''extraNotes'')))
                             @ js ''\<newline>'' @ layout_constraint)],
                temperature = 7 / 10,
                max_tokens = 2800\<rparr>)"
proof -
  have nn: "\<not> nullish b" using assms(1) by (rule fully_valid_not_nullish)
  from assms(1) obtain key g cam sp pt d f where
    fields: "body_field b ''apiKey'' = JStr key" "trim key \<noteq> []"
      "body_field b ''genre'' = JStr g" "g \<noteq> []"
      "body_field b ''camera'' = JStr cam" "cam \<noteq> []"
      "body_field b ''stagePosition'' = JStr sp" "sp \<noteq> []"
      "body_field b ''playtime'' = JStr pt" "pt \<noteq> []"
      "body_field b ''difficulty'' = JStr d" "d \<noteq> []"
      "body_field b ''focus'' = JStr f" "f \<noteq> []"
    and cnt: "truthy (body_field b ''count'')"
    and opt: "optional_text (body_field b ''themeKeywords'')"
      "optional_text (body_field b ''extraNotes'')"
    by (auto simp: fully_valid_def credential_present_def is_text_def split: jsval.splits)
  have key: "key \<noteq> []" using fields(2) by auto
  let ?r = "\<lparr>apiKey = body_field b ''apiKey'', genre = body_field b ''genre'',
          camera = body_field b ''camera'', stagePosition = body_field b ''stagePosition'',
          playtime = body_field b ''playtime'', difficulty = body_field b ''difficulty'',
          focus = body_field b ''focus'', themeKeywords = body_field b ''themeKeywords'',
          count = body_field b ''count'', extraNotes = body_field b ''extraNotes''\<rparr>"
  have rng: "1 \<le> k" "k \<le> 10"
    using safeCount_range [of "body_field b ''count''" k] assms(2) by (simp_all add: safeCount_same)
  have p: "server_userPrompt ?r k =
     Inr (concat (prompt_parts (count_numeral k) g cam sp pt d f
            (theme_text (body_field b ''themeKeywords'')) (notes_text (body_field b ''extraNotes'')))
          @ js ''\<newline>'' @ layout_constraint)"
    using server_userPrompt_text [of ?r g cam sp pt d f k] fields opt rng by simp
  show ?thesis
    using fields key cnt assms(2) p
    by (simp add: server_before_fetch_def destructure_fields [OF nn] bind_exn_def text_of_def)
qed

lemma server_call_count:
  assumes "server_before_fetch b = Inr (Inr c)"
  shows "\<exists>k. server_safeCount (body_field b ''count'') = Inr k
           \<and> prefix (js ''Generate '' @ count_numeral k @ js '' level blueprints.'')
                 (user_message c)"
proof (cases "destructure b")
  case (Inl e)
  with assms show ?thesis by (simp add: server_before_fetch_def bind_exn_def)
next
  case (Inr r)
  from assms Inr obtain k p where
    "server_safeCount (count r) = Inr k" "server_userPrompt r k = Inr p" "user_message c = p"
    by (auto simp: server_before_fetch_def bind_exn_def user_message_def split: sum.splits if_splits)
  then show ?thesis
    using server_userPrompt_opening [of r k p] destructure_count [OF Inr]
      safeCount_range [of "count r" k] by (auto simp: safeCount_same)
qed

lemma part_000_call_count:
  assumes "part_000_before_fetch b = Inr (Inr c)"
  shows "\<exists>k. part_000_safeCount (body_field b ''count'') = Inr k
           \<and> prefix (js ''Generate '' @ count_numeral k @ js '' level blueprints.'')
                 (user_message c)"
proof (cases "destructure b")
  case (Inl e)
  with assms show ?thesis by (simp add: part_000_before_fetch_def bind_exn_def)
next
  case (Inr r)
  from assms Inr obtain k p where
    "part_000_safeCount (count r) = Inr k" "part_000_userPrompt r k = Inr p" "user_message c = p"
    by (auto simp: part_000_before_fetch_def bind_exn_def user_message_def split: sum.splits if_splits)
  then show ?thesis
    using part_000_userPrompt_opening [of r k p] destructure_count [OF Inr]
      safeCount_range [of "count r" k] by (auto simp: safeCount_same)
qed

lemma part_000_call_messages:
  assumes "part_000_before_fetch b = Inr (Inr c)"
  shows "messages c = [(js ''system'', part_000_SYSTEM_PROMPT), (js ''user'', user_message c)]"
proof (cases "destructure b")
  case (Inl e)
  with assms show ?thesis by (simp add: part_000_before_fetch_def bind_exn_def)
next
  case (Inr r)
  with assms show ?thesis
    by (auto simp: part_000_before_fetch_def bind_exn_def user_message_def
          split: sum.splits if_splits)
qed

lemma server_after_fetch_not_ok:
  "\<not> ok rsp \<Longrightarrow> text_result rsp = Inr t \<Longrightarrow>
     server_after_fetch (Resolves rsp) =
       Inr \<lparr>status = 500,
            body = [(js ''error'', Json (JStr (js ''OpenAI API error''))),
                    (js ''detail'', Json (JStr t))]\<rparr>"
  by (simp add: server_after_fetch_def bind_exn_def)

lemma server_after_fetch_ok:
  "ok rsp \<Longrightarrow> json_result rsp = Inr data \<Longrightarrow> \<not> nullish data \<Longrightarrow>
     server_after_fetch (Resolves rsp) =
       Inr \<lparr>status = 200,
            body = [(js ''content'',
                     Json (if truthy (content_path data) then content_path data else JStr []))]\<rparr>"
  by (cases "own_prop data (js ''choices'')";
      cases "index0 (own_prop data (js ''choices''))";
      cases "own_prop (index0 (own_prop data (js ''choices''))) (js ''message'')")
     (simp_all add: server_after_fetch_def bind_exn_def getProp_def getIndex0_def optional_chain_def
        nullish_def content_path_def)

lemma server_after_fetch_null:
  "ok rsp \<Longrightarrow> json_result rsp = Inr data \<Longrightarrow> nullish data \<Longrightarrow>
     server_after_fetch (Resolves rsp) = Inl TypeError_nullish_property"
  by (simp add: server_after_fetch_def bind_exn_def getProp_def)

lemma part_000_after_fetch_not_ok:
  "\<not> ok rsp \<Longrightarrow> text_result rsp = Inr t \<Longrightarrow>
     part_000_after_fetch (Resolves rsp) =
       Inr \<lparr>status = 500,
            body = [(js ''error'', Json (JStr (js ''OpenAI API error''))),
                    (js ''detail'', Json (JStr t))]\<rparr>"
  by (simp add: part_000_after_fetch_def bind_exn_def)

lemma part_000_after_fetch_ok:
  "ok rsp \<Longrightarrow> json_result rsp = Inr data \<Longrightarrow> \<not> nullish data \<Longrightarrow>
     part_000_after_fetch (Resolves rsp) =
       Inr \<lparr>status = 200,
            body = [(js ''content'',
                     Json (if truthy (content_path data) then content_path data else JStr []))]\<rparr>"
  by (cases "own_prop data (js ''choices'')";
      cases "index0 (own_prop data (js ''choices''))";
      cases "own_prop (index0 (own_prop data (js ''choices''))) (js ''message'')")
     (simp_all add: part_000_after_fetch_def bind_exn_def getProp_def getIndex0_def optional_chain_def
        nullish_def content_path_def)

lemma part_000_after_fetch_null:
  "ok rsp \<Longrightarrow> json_result rsp = Inr data \<Longrightarrow> nullish data \<Longrightarrow>
     part_000_after_fetch (Resolves rsp) = Inl TypeError_nullish_property"
  by (simp add: part_000_after_fetch_def bind_exn_def getProp_def)

lemma after_fetch_same: "server_after_fetch u = part_000_after_fetch u"
  by (simp add: server_after_fetch_def part_000_after_fetch_def)

lemma server_handler_throw:
  "server_before_fetch b = Inl e \<Longrightarrow> server_handler b u = (server_error_response e, [])"
  by (simp add: server_handler_def server_error_response_def)

lemma server_handler_early:
  "server_before_fetch b = Inr (Inl res) \<Longrightarrow> server_handler b u = (res, [])"
  by (simp add: server_handler_def)

lemma server_handler_call:
  "server_before_fetch b = Inr (Inr c) \<Longrightarrow>
     server_handler b u =
       ((case server_after_fetch u of Inl e \<Rightarrow> server_error_response e | Inr res \<Rightarrow> res), [c])"
  by (simp add: server_handler_def server_error_response_def split: sum.splits)

lemma server_calls:
  "snd (server_handler b u) = (case server_before_fetch b of Inr (Inr c) \<Rightarrow> [c] | _ \<Rightarrow> [])"
  by (simp add: server_handler_def split: sum.splits)

lemma part_000_handler_throw:
  "part_000_before_fetch b = Inl e \<Longrightarrow> part_000_handler b u = (server_error_response e, [])"
  by (simp add: part_000_handler_def server_error_response_def)

lemma part_000_handler_early:
  "part_000_before_fetch b = Inr (Inl res) \<Longrightarrow> part_000_handler b u = (res, [])"
  by (simp add: part_000_handler_def)

lemma part_000_handler_call:
  "part_000_before_fetch b = Inr (Inr c) \<Longrightarrow>
     part_000_handler b u =
       ((case part_000_after_fetch u of Inl e \<Rightarrow> server_error_response e | Inr res \<Rightarrow> res), [c])"
  by (simp add: part_000_handler_def server_error_response_def split: sum.splits)

lemma part_000_calls:
  "snd (part_000_handler b u) = (case part_000_before_fetch b of Inr (Inr c) \<Rightarrow> [c] | _ \<Rightarrow> [])"
  by (simp add: part_000_handler_def split: sum.splits)

lemma server_call_made:
  "snd (server_handler b u) \<noteq> [] \<Longrightarrow> \<exists>c. server_before_fetch b = Inr (Inr c)"
  by (auto simp: server_calls split: sum.splits)

lemma part_000_call_made:
  "snd (part_000_handler b u) \<noteq> [] \<Longrightarrow> \<exists>c. part_000_before_fetch b = Inr (Inr c)"
  by (auto simp: part_000_calls split: sum.splits)

lemma valid_makes_call:
  assumes "fully_valid b"
  shows "snd (server_handler b u) \<noteq> []" and "snd (part_000_handler b u) \<noteq> []"
proof -
  from valid_count_total [OF assms] obtain k where
    k: "server_safeCount (body_field b ''count'') = Inr k" by blast
  then have k': "part_000_safeCount (body_field b ''count'') = Inr k"
    by (simp add: safeCount_same)
  show "snd (server_handler b u) \<noteq> []"
    by (simp add: server_calls server_valid_call [OF assms k])
  show "snd (part_000_handler b u) \<noteq> []"
    by (simp add: part_000_calls part_000_valid_call [OF assms k'])
qed

lemma single_call_exists:
  assumes "fully_valid b"
  shows "\<exists>c1 c2. snd (server_handler b u) = [c1] \<and> snd (part_000_handler b u) = [c2]"
proof -
  from valid_count_total [OF assms] obtain k where
    k: "server_safeCount (body_field b ''count'') = Inr k" by blast
  then have k': "part_000_safeCount (body_field b ''count'') = Inr k"
    by (simp add: safeCount_same)
  show ?thesis
    by (simp add: server_calls part_000_calls server_valid_call [OF assms k]
          part_000_valid_call [OF assms k'])
qed

section \<open>The example requests\<close>

lemma sample_request_fields:
  "body_field sample_request ''apiKey'' = JStr (js '' sk-test '')"
  "body_field sample_request ''genre'' = JStr (js ''Roguelike'')"
  "body_field sample_request ''camera'' = JStr (js ''Top-down'')"
  "body_field sample_request ''stagePosition'' = JStr (js ''Mid'')"
  "body_field sample_request ''playtime'' = JStr (js ''10 minutes'')"
  "body_field sample_request ''difficulty'' = JStr (js ''Hard'')"
  "body_field sample_request ''focus'' = JStr (js ''Combat'')"
  "body_field sample_request ''count'' = JNum (js ''15'')"
  "body_field sample_request ''themeKeywords'' = Undefined"
  "body_field sample_request ''extraNotes'' = Undefined"
  by (simp_all add: body_field_def sample_request_def)

lemma trim_sample_key: "trim (js '' sk-test '') = js ''sk-test''"
  by (simp add: trim_def js_def is_ws_def)

lemma sample_request_valid: "fully_valid sample_request"
  by (simp add: fully_valid_def credential_present_def is_text_def optional_text_def
        sample_request_fields trim_sample_key)

lemma sample_request_count: "server_safeCount (body_field sample_request ''count'') = Inr 10"
  by (simp add: sample_request_fields safeCount_num safeCount_str parseInt_string_literals)

lemma blank_notes_request_fields:
  "body_field blank_notes_request ''apiKey'' = JStr (js ''sk-test'')"
  "body_field blank_notes_request ''genre'' = JStr (js ''Puzzle'')"
  "body_field blank_notes_request ''camera'' = JStr (js ''Side view'')"
  "body_field blank_notes_request ''stagePosition'' = JStr (js ''Early'')"
  "body_field blank_notes_request ''playtime'' = JStr (js ''5 minutes'')"
  "body_field blank_notes_request ''difficulty'' = JStr (js ''Easy'')"
  "body_field blank_notes_request ''focus'' = JStr (js ''Exploration'')"
  "body_field blank_notes_request ''count'' = JNum (js ''1e+21'')"
  "body_field blank_notes_request ''themeKeywords'' = JStr (js ''neon'')"
  "body_field blank_notes_request ''extraNotes'' = JStr (js '' \<newline>  '')"
  by (simp_all add: body_field_def blank_notes_request_def)

lemma trim_plain_key: "trim (js ''sk-test'') = js ''sk-test''"
  by (simp add: trim_def js_def is_ws_def)

lemma blank_notes_request_valid: "fully_valid blank_notes_request"
  by (simp add: fully_valid_def credential_present_def is_text_def optional_text_def
        blank_notes_request_fields trim_plain_key)

lemma blank_notes_request_count:
  "server_safeCount (body_field blank_notes_request ''count'') = Inr 1"
  by (simp add: blank_notes_request_fields safeCount_num safeCount_str parseInt_string_literals)

lemma blank_notes_are_blank: "blank (js '' \<newline>  '')"
  by (simp add: blank_def js_def is_ws_def)

lemma count_numeral_values: "count_numeral 10 = js ''10''" "count_numeral 1 = js ''1''"
  by (simp_all add: count_numeral_def)

section \<open>The properties\<close>

text \<open>
  C1. The count of the prompt is \<open>safeCount\<close>, the normalization of the supplied
  \<open>count\<close>, the same in both services. It sends the number 0, an absent value, every
  negative number (a number whose text starts with the minus sign), every string
  without a digit, every string whose first character after leading white space is
  neither a digit nor a sign, and every boolean to 1; the number 15 to 10; the string
  \<open>"7"\<close> to 7; it leaves the numbers 1 to 10 (5 among them) as they are and clamps every
  other integer; a number with a fraction or an exponent is read up to its first
  character that is no digit (2.7 gives 2, 0.5 gives 1, 1e+21 gives 1). Whatever it
  returns lies between 1 and 10. Whenever a service makes its call, the user prompt
  opens with \<open>Generate k level blueprints.\<close> for the normalized count \<open>k\<close> of the
  request.
\<close>

theorem count_normalization:
  "server_safeCount (JNum (js ''0'')) = Inr 1
   \<and> server_safeCount Undefined = Inr 1
   \<and> (\<forall>s. server_safeCount (JNum (of_char CHR ''-'' # s)) = Inr 1)
   \<and> (\<forall>s. (\<forall>c \<in> set s. \<not> is_digit c) \<longrightarrow> server_safeCount (JStr s) = Inr 1)
   \<and> (\<forall>w c r. blank w \<and> \<not> is_ws c \<and> \<not> is_digit c
          \<and> c \<noteq> of_char CHR ''+'' \<and> c \<noteq> of_char CHR ''-''
          \<longrightarrow> server_safeCount (JStr (w @ c # r)) = Inr 1)
   \<and> (\<forall>t. server_safeCount (JBool t) = Inr 1)
   \<and> server_safeCount (JNum (js ''15'')) = Inr 10
   \<and> server_safeCount (JNum (js ''5'')) = Inr 5
   \<and> (\<forall>n. 1 \<le> n \<and> n \<le> 10 \<longrightarrow> server_safeCount (JNum (count_numeral n)) = Inr n)
   \<and> (\<forall>n. \<bar>n\<bar> < 2 ^ 53 \<longrightarrow> server_safeCount (js_number n) = Inr (min (max n 1) 10))
   \<and> server_safeCount (JStr (js ''7'')) = Inr 7
   \<and> server_safeCount (JNum (js ''2.7'')) = Inr 2
   \<and> server_safeCount (JNum (js ''0.5'')) = Inr 1
   \<and> server_safeCount (JNum (js ''1e+21'')) = Inr 1
   \<and> (\<forall>v k. server_safeCount v = Inr k \<longrightarrow> 1 \<le> k \<and> k \<le> 10)
   \<and> (\<forall>v. part_000_safeCount v = server_safeCount v)
   \<and> (\<forall>b u c. snd (server_handler b u) = [c] \<longrightarrow>
         (\<exists>k. server_safeCount (body_field b ''count'') = Inr k
            \<and> prefix (js ''Generate '' @ count_numeral k @ js '' level blueprints.'')
                 (user_message c)))
   \<and> (\<forall>b u c. snd (part_000_handler b u) = [c] \<longrightarrow>
         (\<exists>k. part_000_safeCount (body_field b ''count'') = Inr k
            \<and> prefix (js ''Generate '' @ count_numeral k @ js '' level blueprints.'')
                 (user_message c)))"
proof (intro conjI allI impI)
  show "server_safeCount (JNum (js ''0'')) = Inr 1"
    by (simp add: safeCount_num safeCount_str parseInt_string_literals)
  show "server_safeCount Undefined = Inr 1" by (rule safeCount_undefined)
  show "server_safeCount (JNum (of_char CHR ''-'' # s)) = Inr 1" for s
    by (rule safeCount_negative)
  show "server_safeCount (JStr s) = Inr 1" if "\<forall>c \<in> set s. \<not> is_digit c" for s
    by (simp add: safeCount_str parseInt_string_no_digit [OF that])
  show "server_safeCount (JStr (w @ c # r)) = Inr 1"
    if "blank w \<and> \<not> is_ws c \<and> \<not> is_digit c \<and> c \<noteq> of_char CHR ''+'' \<and> c \<noteq> of_char CHR ''-''"
    for w c r
  proof -
    from that have "parseInt_string (w @ c # r) = None"
      by (intro parseInt_string_no_integer) (simp_all add: blank_def)
    then show ?thesis by (simp add: safeCount_str)
  qed
  show "server_safeCount (JBool t) = Inr 1" for t by (rule safeCount_bool)
  show "server_safeCount (JNum (js ''15'')) = Inr 10"
    by (simp add: safeCount_num safeCount_str parseInt_string_literals)
  show "server_safeCount (JNum (js ''5'')) = Inr 5"
    by (simp add: safeCount_num safeCount_str parseInt_string_literals)
  show "server_safeCount (JNum (count_numeral n)) = Inr n" if "1 \<le> n \<and> n \<le> 10" for n
  proof -
    from that have "count_numeral n = num_to_string n" by (simp add: count_numeral_eq)
    then have "server_safeCount (JNum (count_numeral n)) = server_safeCount (js_number n)"
      by (simp add: js_number_def)
    with that show ?thesis by (simp add: safeCount_js_number)
  qed
  show "server_safeCount (js_number n) = Inr (min (max n 1) 10)" if "\<bar>n\<bar> < 2 ^ 53" for n
    using that by (rule safeCount_js_number)
  show "server_safeCount (JStr (js ''7'')) = Inr 7" by (rule safeCount_seven)
  show "server_safeCount (JNum (js ''2.7'')) = Inr 2"
    by (simp add: safeCount_num safeCount_str parseInt_string_literals)
  show "server_safeCount (JNum (js ''0.5'')) = Inr 1"
    by (simp add: safeCount_num safeCount_str parseInt_string_literals)
  show "server_safeCount (JNum (js ''1e+21'')) = Inr 1"
    by (simp add: safeCount_num safeCount_str parseInt_string_literals)
  show "1 \<le> k" if "server_safeCount v = Inr k" for v k
    using safeCount_range [OF that] by simp
  show "k \<le> 10" if "server_safeCount v = Inr k" for v k
    using safeCount_range [OF that] by simp
  show "part_000_safeCount v = server_safeCount v" for v by (rule safeCount_same)
  show "\<exists>k. server_safeCount (body_field b ''count'') = Inr k
           \<and> prefix (js ''Generate '' @ count_numeral k @ js '' level blueprints.'')
                (user_message c)"
    if "snd (server_handler b u) = [c]" for b u c
  proof -
    from that have "server_before_fetch b = Inr (Inr c)"
      by (auto simp: server_calls split: sum.splits)
    then show ?thesis by (rule server_call_count)
  qed
  show "\<exists>k. part_000_safeCount (body_field b ''count'') = Inr k
           \<and> prefix (js ''Generate '' @ count_numeral k @ js '' level blueprints.'')
                (user_message c)"
    if "snd (part_000_handler b u) = [c]" for b u c
  proof -
    from that have "part_000_before_fetch b = Inr (Inr c)"
      by (auto simp: part_000_calls split: sum.splits)
    then show ?thesis by (rule part_000_call_count)
  qed
qed

theorem count_normalization_witness:
  "server_safeCount (JNum (js ''-3'')) = Inr 1
   \<and> server_safeCount (JStr (js ''many'')) = Inr 1
   \<and> server_safeCount (JStr (js '' x1'')) = Inr 1
   \<and> server_safeCount (JNum (js ''9'')) = Inr 9
   \<and> server_safeCount (JNum (js ''12'')) = Inr 10
   \<and> part_000_safeCount (JStr (js ''7'')) = Inr 7
   \<and> server_safeCount (JNum (js ''15'')) = Inr 10 \<and> (1 :: int) \<le> 10 \<and> (10 :: int) \<le> 10
   \<and> prefix (js ''Generate 10 level blueprints.'')
        (user_message (hd (snd (server_handler sample_request rate_limited))))
   \<and> prefix (js ''Generate 1 level blueprints.'')
        (user_message (hd (snd (part_000_handler blank_notes_request rate_limited))))"
proof -
  note cn = count_normalization
  have nd: "\<forall>c \<in> set (js ''many''). \<not> is_digit c" by (simp add: js_def is_digit_def)
  have sp: "blank (js '' '') \<and> \<not> is_ws (of_char CHR ''x'') \<and> \<not> is_digit (of_char CHR ''x'')
      \<and> (of_char CHR ''x'' :: jschar) \<noteq> of_char CHR ''+''
      \<and> (of_char CHR ''x'' :: jschar) \<noteq> of_char CHR ''-''"
    by (simp add: blank_def js_def is_ws_def is_digit_def)
  have x1: "js '' x1'' = js '' '' @ of_char CHR ''x'' # js ''1''" by (simp add: js_def)
  have m3: "js ''-3'' = of_char CHR ''-'' # js ''3''" by (simp add: js_def)
  have n9: "count_numeral 9 = js ''9''" by (simp add: count_numeral_def)
  have n12: "js_number 12 = JNum (js ''12'')"
    by (simp add: js_number_def num_to_string_def digits.simps digit_char_def js_def)
  from single_call_exists [OF sample_request_valid, of rate_limited]
  obtain c1 where c1: "snd (server_handler sample_request rate_limited) = [c1]" by blast
  from single_call_exists [OF blank_notes_request_valid, of rate_limited]
  obtain c2 where c2: "snd (part_000_handler blank_notes_request rate_limited) = [c2]" by blast
  from cn c1 obtain k1 where k1: "server_safeCount (body_field sample_request ''count'') = Inr k1"
    "prefix (js ''Generate '' @ count_numeral k1 @ js '' level blueprints.'') (user_message c1)"
    by blast
  from cn c2 obtain k2 where
    k2: "part_000_safeCount (body_field blank_notes_request ''count'') = Inr k2"
    "prefix (js ''Generate '' @ count_numeral k2 @ js '' level blueprints.'') (user_message c2)"
    by blast
  from k1(1) have "k1 = 10" by (simp add: sample_request_count)
  with k1(2) have p1: "prefix (js ''Generate 10 level blueprints.'') (user_message c1)"
    by (simp add: count_numeral_values js_append)
  from k2(1) have "k2 = 1" by (simp add: safeCount_same blank_notes_request_count)
  with k2(2) have p2: "prefix (js ''Generate 1 level blueprints.'') (user_message c2)"
    by (simp add: count_numeral_values js_append)
  have a: "server_safeCount (JNum (js ''-3'')) = Inr 1" unfolding m3 using cn by blast
  have b: "server_safeCount (JStr (js ''many'')) = Inr 1" using cn nd by blast
  have b': "server_safeCount (JStr (js '' x1'')) = Inr 1" unfolding x1 using cn sp by blast
  have d: "server_safeCount (JNum (js ''9'')) = Inr 9"
  proof -
    from cn have "(1 :: int) \<le> 9 \<and> (9 :: int) \<le> 10 \<longrightarrow> server_safeCount (JNum (count_numeral 9)) = Inr 9"
      by blast
    then show ?thesis by (simp add: n9)
  qed
  have d': "server_safeCount (JNum (js ''12'')) = Inr 10"
  proof -
    from cn have "\<bar>12 :: int\<bar> < 2 ^ 53 \<longrightarrow> server_safeCount (js_number 12) = Inr (min (max 12 1) 10)"
      by blast
    then show ?thesis by (simp add: n12)
  qed
  have e: "part_000_safeCount (JStr (js ''7'')) = Inr 7" using cn by simp
  have f: "server_safeCount (JNum (js ''15'')) = Inr 10" using cn by blast
  have g: "(1 :: int) \<le> 10 \<and> (10 :: int) \<le> 10" using cn f by blast
  show ?thesis using a b b' d d' e f g p1 p2 by (simp add: c1 c2)
qed





text \<open>
  C3. A request whose \<open>apiKey\<close> is a string that is not blank, but where one of
  \<open>genre\<close>, \<open>camera\<close>, \<open>stagePosition\<close>, \<open>playtime\<close>, \<open>difficulty\<close>, \<open>focus\<close>, \<open>count\<close>
  is absent or falsy, is answered by both services with status 400 and the body
  exactly \<open>{ error: "Missing required fields" }\<close>, and no \<open>fetch\<close> is made.
\<close>

theorem missing_field_rejected:
  assumes "credential_present b" and "some_required_field_missing b"
  shows "server_handler b u =
           (\<lparr>status = 400,
             body = [(js ''error'', Json (JStr (js ''Missing required fields'')))]\<rparr>, [])
       \<and> part_000_handler b u = server_handler b u"
proof -
  have nn: "\<not> nullish b"
    using assms(1) by (cases b) (simp_all add: credential_present_def body_field_def nullish_def)
  show ?thesis
    using server_handler_early [OF server_before_fetch_missing_field [OF nn assms]]
      part_000_handler_early [OF part_000_before_fetch_missing_field [OF nn assms]]
    by (simp add: missing_fields_response_def)
qed

theorem missing_field_rejected_witness:
  "server_handler
       (JObj [(js ''apiKey'', JStr (js '' sk-test '')), (js ''genre'', JStr (js ''Roguelike'')),
              (js ''count'', JNum (js ''0''))]) rate_limited =
     (\<lparr>status = 400,
       body = [(js ''error'', Json (JStr (js ''Missing required fields'')))]\<rparr>, [])
   \<and> part_000_handler
       (JObj [(js ''apiKey'', JStr (js '' sk-test '')), (js ''genre'', JStr (js ''Roguelike'')),
              (js ''count'', JNum (js ''0''))]) rate_limited =
     server_handler
       (JObj [(js ''apiKey'', JStr (js '' sk-test '')), (js ''genre'', JStr (js ''Roguelike'')),
              (js ''count'', JNum (js ''0''))]) rate_limited"
  by (rule missing_field_rejected)
     (simp_all add: credential_present_def some_required_field_missing_def required_fields_def
        body_field_def trim_sample_key)

text \<open>
  C4, as the code has it. When the \<open>fetch\<close> resolves with an \<open>ok\<close> response whose body
  parses to a JSON value \<open>data\<close> other than \<open>null\<close>, both services answer with status
  200 and \<open>{ content }\<close>, where \<open>content\<close> is the value at
  \<open>choices[0].message.content\<close> if that value is truthy and the empty string otherwise.
  So a missing path, and a falsy value on it, give the empty string, and a text on the
  path is returned as it is.
\<close>

theorem envelope_content_extraction:
  assumes "ok rsp" and "json_result rsp = Inr data" and "\<not> nullish data"
  shows "(snd (server_handler b (Resolves rsp)) \<noteq> [] \<longrightarrow>
            fst (server_handler b (Resolves rsp)) =
              \<lparr>status = 200,
               body = [(js ''content'',
                        Json (if truthy (content_path data) then content_path data
                              else JStr []))]\<rparr>)
       \<and> (snd (part_000_handler b (Resolves rsp)) \<noteq> [] \<longrightarrow>
            fst (part_000_handler b (Resolves rsp)) =
              \<lparr>status = 200,
               body = [(js ''content'',
                        Json (if truthy (content_path data) then content_path data
                              else JStr []))]\<rparr>)"
proof (intro conjI impI)
  assume "snd (server_handler b (Resolves rsp)) \<noteq> []"
  then obtain c where "server_before_fetch b = Inr (Inr c)"
    using server_call_made by blast
  then show "fst (server_handler b (Resolves rsp)) =
      \<lparr>status = 200,
       body = [(js ''content'',
                Json (if truthy (content_path data) then content_path data else JStr []))]\<rparr>"
    by (simp add: server_handler_call server_after_fetch_ok [OF assms])
next
  assume "snd (part_000_handler b (Resolves rsp)) \<noteq> []"
  then obtain c where "part_000_before_fetch b = Inr (Inr c)"
    using part_000_call_made by blast
  then show "fst (part_000_handler b (Resolves rsp)) =
      \<lparr>status = 200,
       body = [(js ''content'',
                Json (if truthy (content_path data) then content_path data else JStr []))]\<rparr>"
    by (simp add: part_000_handler_call part_000_after_fetch_ok [OF assms])
qed

theorem envelope_content_extraction_witness:
  "fst (server_handler sample_request (envelope (envelope_with_content (JStr (js ''## Level 1''))))) =
     \<lparr>status = 200, body = [(js ''content'', Json (JStr (js ''## Level 1'')))]\<rparr>
   \<and> fst (part_000_handler sample_request (envelope (JObj []))) =
     \<lparr>status = 200, body = [(js ''content'', Json (JStr []))]\<rparr>"
  using envelope_content_extraction
    [of "\<lparr>ok = True, text_result = Inr [], json_result = Inr (envelope_with_content (JStr (js ''## Level 1'')))\<rparr>"
        "envelope_with_content (JStr (js ''## Level 1''))" sample_request]
    envelope_content_extraction
    [of "\<lparr>ok = True, text_result = Inr [], json_result = Inr (JObj [])\<rparr>" "JObj []" sample_request]
    valid_makes_call [OF sample_request_valid]
  by (simp add: envelope_def content_path_envelope content_path_empty_object object_not_nullish
        envelope_not_nullish)

text \<open>
  C4 as it is stated does not hold. On the example request, an \<open>ok\<close> response whose body
  is \<open>null\<close> is answered with status 500 through the \<open>catch\<close>, and one whose
  \<open>choices[0].message.content\<close> is the number 42 is answered with \<open>content\<close> 42, not
  with the empty string.
\<close>

theorem null_envelope_counterexample:
  "fst (server_handler sample_request (envelope JNull)) =
     \<lparr>status = 500,
      body = [(js ''error'', Json (JStr (js ''Server error''))),
              (js ''detail'', MessageOf TypeError_nullish_property)]\<rparr>
   \<and> fst (server_handler sample_request (envelope (envelope_with_content (JNum (js ''42''))))) =
     \<lparr>status = 200, body = [(js ''content'', Json (JNum (js ''42'')))]\<rparr>"
proof -
  from valid_makes_call(1) [OF sample_request_valid, of rate_limited]
  obtain c where c: "server_before_fetch sample_request = Inr (Inr c)"
    using server_call_made by blast
  have 1: "server_after_fetch (envelope JNull) = Inl TypeError_nullish_property"
    unfolding envelope_def
    by (rule server_after_fetch_null [where data = JNull]) (simp_all add: nullish_def)
  have 2: "server_after_fetch (envelope (envelope_with_content (JNum (js ''42'')))) =
      Inr \<lparr>status = 200, body = [(js ''content'', Json (JNum (js ''42'')))]\<rparr>"
    unfolding envelope_def
    by (subst server_after_fetch_ok [where data = "envelope_with_content (JNum (js ''42''))"])
       (simp_all add: envelope_not_nullish content_path_envelope)
  show ?thesis
    by (simp add: server_handler_call [OF c] 1 2 server_error_response_def)
qed

text \<open>
  C5. For a fully valid request the user prompt each service sends shows the request:
  the opening line with the normalized count as a decimal numeral, a labelled line with
  the literal value of each of \<open>genre\<close>, \<open>camera\<close>, \<open>stagePosition\<close>, \<open>playtime\<close>,
  \<open>difficulty\<close>, \<open>focus\<close>, the sentinel \<open>No additional notes.\<close> when \<open>extraNotes\<close> is
  absent or has white space only, and the sentinel \<open>none\<close> when \<open>themeKeywords\<close> is
  absent.
\<close>

theorem prompt_shows_request:
  assumes "fully_valid b"
  shows "\<exists>k c1 c2. server_safeCount (body_field b ''count'') = Inr k
           \<and> snd (server_handler b u) = [c1] \<and> shows_request b k (user_message c1)
           \<and> snd (part_000_handler b u) = [c2] \<and> shows_request b k (user_message c2)"
proof -
  from valid_count_total [OF assms] obtain k where
    k: "server_safeCount (body_field b ''count'') = Inr k" by blast
  then have k': "part_000_safeCount (body_field b ''count'') = Inr k"
    by (simp add: safeCount_same)
  have opt: "optional_text (body_field b ''extraNotes'')"
    using assms by (simp add: fully_valid_def)
  let ?parts = "prompt_parts (count_numeral k)
      (text_of (body_field b ''genre'')) (text_of (body_field b ''camera''))
      (text_of (body_field b ''stagePosition'')) (text_of (body_field b ''playtime''))
      (text_of (body_field b ''difficulty'')) (text_of (body_field b ''focus''))
      (theme_text (body_field b ''themeKeywords'')) (notes_text (body_field b ''extraNotes''))"
  have 1: "shows_request b k (concat ?parts @ js ''\<newline>'' @ layout_constraint)"
    by (rule shows_request_generic [OF _ opt]) (rule sublist_prompt_part [THEN conjunct2])
  have 2: "shows_request b k (concat ?parts)"
    by (rule shows_request_generic [OF _ opt]) (rule sublist_prompt_part [THEN conjunct1])
  from server_valid_call [OF assms k] obtain c1 where
    c1: "server_before_fetch b = Inr (Inr c1)"
      "user_message c1 = concat ?parts @ js ''\<newline>'' @ layout_constraint"
    by (simp add: user_message_def)
  from part_000_valid_call [OF assms k'] obtain c2 where
    c2: "part_000_before_fetch b = Inr (Inr c2)" "user_message c2 = concat ?parts"
    by (simp add: user_message_def)
  show ?thesis
    using k 1 2 c1 c2
    by (intro exI [of _ k] exI [of _ c1] exI [of _ c2]) (simp add: server_calls part_000_calls)
qed

theorem prompt_shows_request_witness:
  "(\<exists>c1 c2. snd (server_handler sample_request rate_limited) = [c1]
      \<and> snd (part_000_handler sample_request rate_limited) = [c2]
      \<and> list_all (\<lambda>line. sublist line (user_message c1) \<and> sublist line (user_message c2))
           [js ''Generate 10 level blueprints.'',
            js ''- Genre: Roguelike'',
            js ''- Camera: Top-down'',
            js ''- Target stage position: Mid'',
            js ''- Target playtime: 10 minutes'',
            js ''- Target difficulty: Hard'',
            js ''- Primary focus: Combat'',
            js ''Creative direction / extra notes from the designer:\<newline>No additional notes.'',
            js ''- Theme / setting keywords: none''])
   \<and> (\<exists>c1 c2. snd (server_handler blank_notes_request rate_limited) = [c1]
      \<and> snd (part_000_handler blank_notes_request rate_limited) = [c2]
      \<and> list_all (\<lambda>line. sublist line (user_message c1) \<and> sublist line (user_message c2))
           [js ''Generate 1 level blueprints.'',
            js ''- Genre: Puzzle'',
            js ''- Camera: Side view'',
            js ''- Target stage position: Early'',
            js ''- Target playtime: 5 minutes'',
            js ''- Target difficulty: Easy'',
            js ''- Primary focus: Exploration'',
            js ''Creative direction / extra notes from the designer:\<newline>No additional notes.''])"
proof
  from prompt_shows_request [OF sample_request_valid, of rate_limited]
  obtain k c1 c2 where k: "server_safeCount (body_field sample_request ''count'') = Inr k"
    and c: "snd (server_handler sample_request rate_limited) = [c1]"
      "snd (part_000_handler sample_request rate_limited) = [c2]"
    and s: "shows_request sample_request k (user_message c1)"
      "shows_request sample_request k (user_message c2)"
    by blast
  from k have "k = 10" by (simp add: sample_request_count)
  with s have "list_all (\<lambda>line. sublist line (user_message c1) \<and> sublist line (user_message c2))
           [js ''Generate 10 level blueprints.'',
            js ''- Genre: Roguelike'',
            js ''- Camera: Top-down'',
            js ''- Target stage position: Mid'',
            js ''- Target playtime: 10 minutes'',
            js ''- Target difficulty: Hard'',
            js ''- Primary focus: Combat'',
            js ''Creative direction / extra notes from the designer:\<newline>No additional notes.'',
            js ''- Theme / setting keywords: none'']"
    by (simp add: shows_request_def sample_request_fields text_of_def count_numeral_values
          js_append)
  with c show "\<exists>c1 c2. snd (server_handler sample_request rate_limited) = [c1]
      \<and> snd (part_000_handler sample_request rate_limited) = [c2]
      \<and> list_all (\<lambda>line. sublist line (user_message c1) \<and> sublist line (user_message c2))
           [js ''Generate 10 level blueprints.'',
            js ''- Genre: Roguelike'',
            js ''- Camera: Top-down'',
            js ''- Target stage position: Mid'',
            js ''- Target playtime: 10 minutes'',
            js ''- Target difficulty: Hard'',
            js ''- Primary focus: Combat'',
            js ''Creative direction / extra notes from the designer:\<newline>No additional notes.'',
            js ''- Theme / setting keywords: none'']"
    by blast
next
  from prompt_shows_request [OF blank_notes_request_valid, of rate_limited]
  obtain k c1 c2 where k: "server_safeCount (body_field blank_notes_request ''count'') = Inr k"
    and c: "snd (server_handler blank_notes_request rate_limited) = [c1]"
      "snd (part_000_handler blank_notes_request rate_limited) = [c2]"
    and s: "shows_request blank_notes_request k (user_message c1)"
      "shows_request blank_notes_request k (user_message c2)"
    by blast
  from k have "k = 1" by (simp add: blank_notes_request_count)
  with s have "list_all (\<lambda>line. sublist line (user_message c1) \<and> sublist line (user_message c2))
           [js ''Generate 1 level blueprints.'',
            js ''- Genre: Puzzle'',
            js ''- Camera: Side view'',
            js ''- Target stage position: Early'',
            js ''- Target playtime: 5 minutes'',
            js ''- Target difficulty: Easy'',
            js ''- Primary focus: Exploration'',
            js ''Creative direction / extra notes from the designer:\<newline>No additional notes.'']"
    by (simp add: shows_request_def blank_notes_request_fields text_of_def count_numeral_values
          js_append blank_notes_are_blank)
  with c show "\<exists>c1 c2. snd (server_handler blank_notes_request rate_limited) = [c1]
      \<and> snd (part_000_handler blank_notes_request rate_limited) = [c2]
      \<and> list_all (\<lambda>line. sublist line (user_message c1) \<and> sublist line (user_message c2))
           [js ''Generate 1 level blueprints.'',
            js ''- Genre: Puzzle'',
            js ''- Camera: Side view'',
            js ''- Target stage position: Early'',
            js ''- Target playtime: 5 minutes'',
            js ''- Target difficulty: Easy'',
            js ''- Primary focus: Exploration'',
            js ''Creative direction / extra notes from the designer:\<newline>No additional notes.'']"
    by blast
qed

text \<open>
  C6. When the \<open>fetch\<close> resolves with a response that is not \<open>ok\<close>, whose body text
  \<open>t\<close> is read by \<open>text()\<close>, both services answer with status 500 and
  \<open>{ error: "OpenAI API error", detail: t }\<close>: the detail is the upstream text as it is.
\<close>

theorem upstream_error_relayed:
  assumes "\<not> ok rsp" and "text_result rsp = Inr t"
  shows "(snd (server_handler b (Resolves rsp)) \<noteq> [] \<longrightarrow>
            fst (server_handler b (Resolves rsp)) =
              \<lparr>status = 500,
               body = [(js ''error'', Json (JStr (js ''OpenAI API error''))),
                       (js ''detail'', Json (JStr t))]\<rparr>)
       \<and> (snd (part_000_handler b (Resolves rsp)) \<noteq> [] \<longrightarrow>
            fst (part_000_handler b (Resolves rsp)) =
              \<lparr>status = 500,
               body = [(js ''error'', Json (JStr (js ''OpenAI API error''))),
                       (js ''detail'', Json (JStr t))]\<rparr>)"
proof (intro conjI impI)
  assume "snd (server_handler b (Resolves rsp)) \<noteq> []"
  then obtain c where "server_before_fetch b = Inr (Inr c)"
    using server_call_made by blast
  then show "fst (server_handler b (Resolves rsp)) =
      \<lparr>status = 500,
       body = [(js ''error'', Json (JStr (js ''OpenAI API error''))),
               (js ''detail'', Json (JStr t))]\<rparr>"
    by (simp add: server_handler_call server_after_fetch_not_ok [OF assms])
next
  assume "snd (part_000_handler b (Resolves rsp)) \<noteq> []"
  then obtain c where "part_000_before_fetch b = Inr (Inr c)"
    using part_000_call_made by blast
  then show "fst (part_000_handler b (Resolves rsp)) =
      \<lparr>status = 500,
       body = [(js ''error'', Json (JStr (js ''OpenAI API error''))),
               (js ''detail'', Json (JStr t))]\<rparr>"
    by (simp add: part_000_handler_call part_000_after_fetch_not_ok [OF assms])
qed

theorem upstream_error_relayed_witness:
  "fst (server_handler sample_request rate_limited) =
     \<lparr>status = 500,
      body = [(js ''error'', Json (JStr (js ''OpenAI API error''))),
              (js ''detail'', Json (JStr (js ''rate limited'')))]\<rparr>
   \<and> fst (part_000_handler sample_request rate_limited) =
     \<lparr>status = 500,
      body = [(js ''error'', Json (JStr (js ''OpenAI API error''))),
              (js ''detail'', Json (JStr (js ''rate limited'')))]\<rparr>"
  using upstream_error_relayed
    [of "\<lparr>ok = False, text_result = Inr (js ''rate limited''),
         json_result = Inl (Rejection (js ''invalid json''))\<rparr>" "js ''rate limited''" sample_request]
    valid_makes_call [OF sample_request_valid, of rate_limited]
  by (simp add: rate_limited_def)




text \<open>
  C8. For a fully valid request each service makes exactly one \<open>fetch\<close>: a \<open>POST\<close> to the
  completion endpoint whose \<open>Authorization\<close> header is \<open>Bearer\<close> followed by the trimmed
  credential of the caller, and whose body has the model \<open>gpt-4o-mini\<close>, two messages
  (the fixed system prompt of the service, then the synthesized user prompt),
  temperature 0.7 and \<open>max_tokens\<close> 2800.
\<close>

theorem single_outbound_call:
  assumes "fully_valid b"
  shows "\<exists>k. server_safeCount (body_field b ''count'') = Inr k
           \<and> part_000_safeCount (body_field b ''count'') = Inr k
           \<and> snd (server_handler b u) =
               [\<lparr>url = js ''https://api.openai.com/v1/chat/completions'',
                http_method = js ''POST'',
                authorization = js ''Bearer '' @ trim (text_of (body_field b ''apiKey'')),
                content_type = js ''application/json'',
                model = js ''gpt-4o-mini'',
                messages = [(js ''system'', server_SYSTEM_PROMPT),
                            (js ''user'', concat (prompt_parts (count_numeral k)
                               (text_of (body_field b ''genre'')) (text_of (body_field b ''camera''))
                               (text_of (body_field b ''stagePosition''))
                               (text_of (body_field b ''playtime''))
                               (text_of (body_field b ''difficulty''))
                               (text_of (body_field b ''focus''))
                               (theme_text (body_field b ''themeKeywords''))
                               (notes_text (body_field b ''extraNotes'')))
                             @ js ''\<newline>'' @ layout_constraint)],
                temperature = 7 / 10,
                max_tokens = 2800\<rparr>]
           \<and> snd (part_000_handler b u) =
               [\<lparr>url = js ''https://api.openai.com/v1/chat/completions'',
                http_method = js ''POST'',
                authorization = js ''Bearer '' @ trim (text_of (body_field b ''apiKey'')),
                content_type = js ''application/json'',
                model = js ''gpt-4o-mini'',
                messages = [(js ''system'', part_000_SYSTEM_PROMPT),
                            (js ''user'', concat (prompt_parts (count_numeral k)
                               (text_of (body_field b ''genre'')) (text_of (body_field b ''camera''))
                               (text_of (body_field b ''stagePosition''))
                               (text_of (body_field b ''playtime''))
                               (text_of (body_field b ''difficulty''))
                               (text_of (body_field b ''focus''))
                               (theme_text (body_field b ''themeKeywords''))
                               (notes_text (body_field b ''extraNotes''))))],
                temperature = 7 / 10,
                max_tokens = 2800\<rparr>]"
proof -
  from valid_count_total [OF assms] obtain k where
    k: "server_safeCount (body_field b ''count'') = Inr k" by blast
  then have k': "part_000_safeCount (body_field b ''count'') = Inr k"
    by (simp add: safeCount_same)
  show ?thesis
    by (rule exI [of _ k])
       (simp add: k k' server_calls part_000_calls server_valid_call [OF assms k]
          part_000_valid_call [OF assms k'])
qed

theorem single_outbound_call_witness:
  "snd (server_handler sample_request rate_limited) =
     [\<lparr>url = js ''https://api.openai.com/v1/chat/completions'',
          http_method = js ''POST'',
          authorization = js ''Bearer '' @ js ''sk-test'',
          content_type = js ''application/json'',
          model = js ''gpt-4o-mini'',
          messages = [(js ''system'', server_SYSTEM_PROMPT),
                      (js ''user'', concat (prompt_parts (js ''10'') (js ''Roguelike'')
                         (js ''Top-down'') (js ''Mid'') (js ''10 minutes'') (js ''Hard'')
                         (js ''Combat'') (js ''none'') (js ''No additional notes.''))
                       @ js ''\<newline>'' @ layout_constraint)],
          temperature = 7 / 10,
          max_tokens = 2800\<rparr>]
   \<and> snd (part_000_handler sample_request rate_limited) =
     [\<lparr>url = js ''https://api.openai.com/v1/chat/completions'',
          http_method = js ''POST'',
          authorization = js ''Bearer '' @ js ''sk-test'',
          content_type = js ''application/json'',
          model = js ''gpt-4o-mini'',
          messages = [(js ''system'', part_000_SYSTEM_PROMPT),
                      (js ''user'', concat (prompt_parts (js ''10'') (js ''Roguelike'')
                         (js ''Top-down'') (js ''Mid'') (js ''10 minutes'') (js ''Hard'')
                         (js ''Combat'') (js ''none'') (js ''No additional notes.'')))],
          temperature = 7 / 10,
          max_tokens = 2800\<rparr>]"
proof -
  from single_outbound_call [OF sample_request_valid, of rate_limited]
  obtain k where k: "server_safeCount (body_field sample_request ''count'') = Inr k"
    and s: "snd (server_handler sample_request rate_limited) =
      [\<lparr>url = js ''https://api.openai.com/v1/chat/completions'',
        http_method = js ''POST'',
        authorization = js ''Bearer '' @ trim (text_of (body_field sample_request ''apiKey'')),
        content_type = js ''application/json'',
        model = js ''gpt-4o-mini'',
        messages = [(js ''system'', server_SYSTEM_PROMPT),
                    (js ''user'', concat (prompt_parts (count_numeral k)
                       (text_of (body_field sample_request ''genre''))
                       (text_of (body_field sample_request ''camera''))
                       (text_of (body_field sample_request ''stagePosition''))
                       (text_of (body_field sample_request ''playtime''))
                       (text_of (body_field sample_request ''difficulty''))
                       (text_of (body_field sample_request ''focus''))
                       (theme_text (body_field sample_request ''themeKeywords''))
                       (notes_text (body_field sample_request ''extraNotes'')))
                     @ js ''\<newline>'' @ layout_constraint)],
        temperature = 7 / 10,
        max_tokens = 2800\<rparr>]"
    and p: "snd (part_000_handler sample_request rate_limited) =
      [\<lparr>url = js ''https://api.openai.com/v1/chat/completions'',
        http_method = js ''POST'',
        authorization = js ''Bearer '' @ trim (text_of (body_field sample_request ''apiKey'')),
        content_type = js ''application/json'',
        model = js ''gpt-4o-mini'',
        messages = [(js ''system'', part_000_SYSTEM_PROMPT),
                    (js ''user'', concat (prompt_parts (count_numeral k)
                       (text_of (body_field sample_request ''genre''))
                       (text_of (body_field sample_request ''camera''))
                       (text_of (body_field sample_request ''stagePosition''))
                       (text_of (body_field sample_request ''playtime''))
                       (text_of (body_field sample_request ''difficulty''))
                       (text_of (body_field sample_request ''focus''))
                       (theme_text (body_field sample_request ''themeKeywords''))
                       (notes_text (body_field sample_request ''extraNotes''))))],
        temperature = 7 / 10,
        max_tokens = 2800\<rparr>]"
    by blast
  from k have "k = 10" by (simp add: sample_request_count)
  with s p show ?thesis
    by (simp only: sample_request_fields text_of_def theme_text_def notes_text_def
          jsval.case trim_sample_key count_numeral_values simp_thms)
qed

text \<open>
  C9. When \<open>apiKey\<close> is truthy but not a string, \<open>apiKey.trim()\<close> throws: both services
  answer through the \<open>catch\<close> with status 500 and
  \<open>{ error: "Server error", detail: <message of the TypeError> }\<close>, not with the 400 of
  the credential check, and no \<open>fetch\<close> is made.
\<close>

theorem non_string_key_is_server_error:
  assumes "\<not> nullish b" and "truthy (body_field b ''apiKey'')"
    and "\<not> is_string (body_field b ''apiKey'')"
  shows "server_handler b u =
           (\<lparr>status = 500,
             body = [(js ''error'', Json (JStr (js ''Server error''))),
                     (js ''detail'', MessageOf TypeError_not_a_function)]\<rparr>, [])
       \<and> part_000_handler b u = server_handler b u
       \<and> fst (server_handler b u) \<noteq> no_api_key_response"
proof -
  have ns: "\<forall>s. body_field b ''apiKey'' \<noteq> JStr s"
    using assms(3) by (auto simp: is_string_def)
  show ?thesis
    using server_handler_throw [OF server_before_fetch_key_not_string [OF assms(1,2) ns]]
      part_000_handler_throw [OF part_000_before_fetch_key_not_string [OF assms(1,2) ns]]
    by (simp add: server_error_response_def no_api_key_response_def)
qed

theorem non_string_key_is_server_error_witness:
  "server_handler (JObj [(js ''apiKey'', JNum (js ''12345''))]) rate_limited =
     (\<lparr>status = 500,
       body = [(js ''error'', Json (JStr (js ''Server error''))),
               (js ''detail'', MessageOf TypeError_not_a_function)]\<rparr>, [])
   \<and> part_000_handler (JObj [(js ''apiKey'', JNum (js ''12345''))]) rate_limited =
     server_handler (JObj [(js ''apiKey'', JNum (js ''12345''))]) rate_limited
   \<and> fst (server_handler (JObj [(js ''apiKey'', JNum (js ''12345''))]) rate_limited) \<noteq> no_api_key_response"
  by (rule non_string_key_is_server_error)
     (simp_all add: nullish_def is_string_def body_field_def)

text \<open>
  C10. The two services agree. On every request body and every outcome of the
  \<open>fetch\<close> they send the same response, and the calls of the service with layout data
  are the calls of the other one with two changes: the system message carries its own
  system prompt, and the user prompt has the layout constraint appended on a new line.
  Every other part of the call is the same.
\<close>

theorem services_agree:
  "fst (server_handler b u) = fst (part_000_handler b u)
   \<and> snd (server_handler b u) = map to_layout_call (snd (part_000_handler b u))
   \<and> length (snd (part_000_handler b u)) \<le> 1
   \<and> (\<forall>c \<in> set (snd (part_000_handler b u)).
         messages c = [(js ''system'', part_000_SYSTEM_PROMPT), (js ''user'', user_message c)]
         \<and> to_layout_call c =
             c\<lparr>messages := [(js ''system'', server_SYSTEM_PROMPT),
                             (js ''user'', user_message c @ js ''\<newline>'' @ layout_constraint)]\<rparr>)"
proof (cases "part_000_before_fetch b")
  case (Inl e)
  then show ?thesis
    by (simp add: server_handler_def part_000_handler_def before_fetch_rel)
next
  case (Inr x)
  show ?thesis
  proof (cases x)
    case (Inl early)
    with Inr show ?thesis
      by (simp add: server_handler_def part_000_handler_def before_fetch_rel)
  next
    case c: (Inr c)
    with Inr have p: "part_000_before_fetch b = Inr (Inr c)" by simp
    then have s: "server_before_fetch b = Inr (Inr (to_layout_call c))"
      by (simp add: before_fetch_rel)
    show ?thesis
      using part_000_call_messages [OF p]
      by (simp add: server_handler_call [OF s] part_000_handler_call [OF p] after_fetch_same
            to_layout_call_def)
  qed
qed

theorem services_agree_witness:
  "fst (server_handler sample_request rate_limited) = fst (part_000_handler sample_request rate_limited)
   \<and> snd (server_handler sample_request rate_limited) =
       map to_layout_call (snd (part_000_handler sample_request rate_limited))
   \<and> messages (hd (snd (part_000_handler sample_request rate_limited))) =
       [(js ''system'', part_000_SYSTEM_PROMPT),
        (js ''user'', user_message (hd (snd (part_000_handler sample_request rate_limited))))]"
proof -
  from single_call_exists [OF sample_request_valid, of rate_limited]
  obtain c2 where c: "snd (part_000_handler sample_request rate_limited) = [c2]" by blast
  show ?thesis
    using services_agree [of sample_request rate_limited] by (simp add: c)
qed

end
